theory Spec2Isabelle
  imports Complex_Main "HOL-Library.Sublist" "HOL-Library.AList"
begin

section \<open>Numbers and text of the scripts\<close>

text \<open>
  The scripts compute with Python numbers. Integers are \<^typ>\<open>int\<close>; a float is
  embedded as the rational it denotes (\<^typ>\<open>rat\<close>), so the not-a-number and
  infinite floats and the binary rounding of decimal literals are outside the embedding.
  \<open>float("inf")\<close> occurs in the source only as the default threshold of a kind without
  a table entry; it is embedded as \<open>None\<close>, the threshold every value is below.
\<close>

definition round_half_even :: "rat \<Rightarrow> int" where
  \<comment> \<open>Python's \<open>round(x)\<close>: the nearest integer, a tie going to the even one.\<close>
  "round_half_even x =
     (let f = \<lfloor>x\<rfloor>; d = x - of_int f
      in if d < 1 / 2 then f
         else if 1 / 2 < d then f + 1
         else if even f then f else f + 1)"

definition py_round :: "rat \<Rightarrow> nat \<Rightarrow> rat" where
  \<comment> \<open>Python's \<open>round(x, n)\<close>: \<open>x\<close> to \<open>n\<close> decimals, as a float.\<close>
  "py_round x n = of_int (round_half_even (x * 10 ^ n)) / 10 ^ n"

definition lower_char :: "char \<Rightarrow> char" where
  "lower_char c =
     (case map_of (zip ''ABCDEFGHIJKLMNOPQRSTUVWXYZ'' ''abcdefghijklmnopqrstuvwxyz'') c of
        None \<Rightarrow> c
      | Some d \<Rightarrow> d)"

definition lower :: "string \<Rightarrow> string" where
  \<comment> \<open>\<open>str.lower()\<close> on the ASCII letters.\<close>
  "lower s = map lower_char s"

definition le_threshold :: "rat \<Rightarrow> rat option \<Rightarrow> bool" where
  \<comment> \<open>\<open>value <= t\<close> where \<open>t\<close> is a table value or \<open>float("inf")\<close> (\<open>None\<close>).\<close>
  "le_threshold v t = (case t of None \<Rightarrow> True | Some g \<Rightarrow> v \<le> g)"

section \<open>Threshold classifier\<close>

subsection \<open>fetch\_psi.py (lab side)\<close>

record thresholds =
  good :: rat
  poor :: rat
  unit :: string

definition psi_CWV_THRESHOLDS :: "(string \<times> thresholds) list" where
  "psi_CWV_THRESHOLDS =
     [(''lcp'', \<lparr>good = 2500, poor = 4000, unit = ''ms''\<rparr>),
      (''inp'', \<lparr>good = 200, poor = 500, unit = ''ms''\<rparr>),
      (''cls'', \<lparr>good = 1 / 10, poor = 25 / 100, unit = ''''\<rparr>),
      (''fcp'', \<lparr>good = 1800, poor = 3000, unit = ''ms''\<rparr>),
      (''ttfb'', \<lparr>good = 800, poor = 1800, unit = ''ms''\<rparr>)]"

definition psi_get_status :: "string \<Rightarrow> rat \<Rightarrow> string" where
  "psi_get_status metric v =
     (let thresholds = map_of psi_CWV_THRESHOLDS (lower metric);
          good = map_option good thresholds;
          poor = map_option poor thresholds
      in if le_threshold v good then ''good''
         else if le_threshold v poor then ''needs_improvement''
         else ''poor'')"


subsection \<open>fetch\_crux.py (field side)\<close>

record crux_thresholds = thresholds +
  display :: string

definition crux_CWV_THRESHOLDS :: "(string \<times> crux_thresholds) list" where
  "crux_CWV_THRESHOLDS =
     [(''largest_contentful_paint'',
         \<lparr>good = 2500, poor = 4000, unit = ''ms'', display = ''s''\<rparr>),
      (''interaction_to_next_paint'',
         \<lparr>good = 200, poor = 500, unit = ''ms'', display = ''ms''\<rparr>),
      (''cumulative_layout_shift'',
         \<lparr>good = 1 / 10, poor = 25 / 100, unit = '''', display = ''''\<rparr>),
      (''first_contentful_paint'',
         \<lparr>good = 1800, poor = 3000, unit = ''ms'', display = ''s''\<rparr>),
      (''experimental_time_to_first_byte'',
         \<lparr>good = 800, poor = 1800, unit = ''ms'', display = ''s''\<rparr>),
      (''first_input_delay'',
         \<lparr>good = 100, poor = 300, unit = ''ms'', display = ''ms''\<rparr>)]"

definition METRIC_DISPLAY_NAMES :: "(string \<times> string) list" where
  "METRIC_DISPLAY_NAMES =
     [(''largest_contentful_paint'', ''lcp''),
      (''interaction_to_next_paint'', ''inp''),
      (''cumulative_layout_shift'', ''cls''),
      (''first_contentful_paint'', ''fcp''),
      (''experimental_time_to_first_byte'', ''ttfb''),
      (''first_input_delay'', ''fid'')]"

definition crux_get_status :: "string \<Rightarrow> rat \<Rightarrow> string" where
  "crux_get_status metric_key p75_value =
     (let thresholds = map_of crux_CWV_THRESHOLDS metric_key;
          good = map_option good thresholds;
          poor = map_option poor thresholds
      in if le_threshold p75_value good then ''good''
         else if le_threshold p75_value poor then ''needs_improvement''
         else ''poor'')"


section \<open>Python values and operations used by the scripts\<close>

datatype py_error = KeyError | AttributeError | TypeError | ValueError | IndexError

text \<open>
  A document read by \<open>json.load\<close>: an object is the list of its items in iteration
  order. An operation that can raise returns \<open>Inl\<close> of the exception.
\<close>

datatype json =
  JNull
| JBool bool
| JInt int
| JFloat rat
| JStr string
| JArr "json list"
| JObj "(string \<times> json) list"

definition py_bind :: "py_error + 'a \<Rightarrow> ('a \<Rightarrow> py_error + 'b) \<Rightarrow> py_error + 'b" where
  \<comment> \<open>Sequencing: an exception of the first computation propagates.\<close>
  "py_bind r f = (case r of Inl e \<Rightarrow> Inl e | Inr x \<Rightarrow> f x)"

fun py_get :: "json \<Rightarrow> string \<Rightarrow> json \<Rightarrow> py_error + json" where
  \<comment> \<open>\<open>d.get(k, default)\<close>; only a dict has the method.\<close>
  "py_get (JObj kvs) k dflt = Inr (case map_of kvs k of None \<Rightarrow> dflt | Some v \<Rightarrow> v)"
| "py_get _ k dflt = Inl AttributeError"

fun truthy :: "json \<Rightarrow> bool" where
  "truthy JNull = False"
| "truthy (JBool b) = b"
| "truthy (JInt n) = (n \<noteq> 0)"
| "truthy (JFloat r) = (r \<noteq> 0)"
| "truthy (JStr s) = (s \<noteq> [])"
| "truthy (JArr xs) = (xs \<noteq> [])"
| "truthy (JObj kvs) = (kvs \<noteq> [])"

fun py_iter :: "json \<Rightarrow> py_error + json list" where
  \<comment> \<open>The elements a \<open>for\<close> loop visits: a dict yields its keys, a string its characters.\<close>
  "py_iter (JArr xs) = Inr xs"
| "py_iter (JObj kvs) = Inr (map (\<lambda>p. JStr (fst p)) kvs)"
| "py_iter (JStr s) = Inr (map (\<lambda>c. JStr [c]) s)"
| "py_iter _ = Inl TypeError"

fun py_items :: "json \<Rightarrow> py_error + (string \<times> json) list" where
  \<comment> \<open>\<open>d.items()\<close>\<close>
  "py_items (JObj kvs) = Inr kvs"
| "py_items _ = Inl AttributeError"

fun as_number :: "json \<Rightarrow> rat option" where
  \<comment> \<open>The value of an operand of arithmetic; \<open>bool\<close> is a subtype of \<open>int\<close>.\<close>
  "as_number (JInt n) = Some (of_int n)"
| "as_number (JFloat r) = Some r"
| "as_number (JBool b) = Some (if b then 1 else 0)"
| "as_number _ = None"

fun py_mapM :: "('a \<Rightarrow> py_error + 'b) \<Rightarrow> 'a list \<Rightarrow> py_error + 'b list" where
  \<comment> \<open>A loop that builds one result per element and stops at the first exception.\<close>
  "py_mapM f [] = Inr []"
| "py_mapM f (x # xs) =
     py_bind (f x) (\<lambda>y. py_bind (py_mapM f xs) (\<lambda>ys. Inr (y # ys)))"






section \<open>Lab-metrics normalizer: opportunities (fetch\_psi.py)\<close>

text \<open>
  The provider document as \<open>parse_opportunities\<close> reads it. A key that may be absent
  is an option; \<open>score\<close> is \<open>None\<close> both when the key is absent and when it is null,
  which \<open>audit.get("score")\<close> does not tell apart. The \<open>audits\<close> dictionary is the list
  of its items in iteration order, which is the provider's order.
\<close>

record audit_ref =
  ref_id :: "string option"
  ref_group :: "string option"

record audit_details =
  overallSavingsMs :: "rat option"
  overallSavingsBytes :: "rat option"

record audit =
  score :: "rat option"
  title :: "string option"
  description :: "string option"
  details :: "audit_details option"

record performance =
  perf_score :: "rat option"
  auditRefs :: "audit_ref list option"

record categories =
  cat_performance :: "performance option"

record lighthouse_result =
  audits :: "(string \<times> audit) list option"
  lr_categories :: "categories option"

record opportunity =
  opp_id :: string
  opp_title :: string
  opp_description :: string
  savings_ms :: "int option"
  savings_bytes :: "rat option"

definition sort_reverse :: "('a \<Rightarrow> 'k::linorder) \<Rightarrow> 'a list \<Rightarrow> 'a list" where
  \<comment> \<open>\<open>sorted(xs, key=f, reverse=True)\<close>: the list is reversed, sorted stably in
      ascending order and reversed again, which is how Python keeps a reversed sort stable.\<close>
  "sort_reverse f xs = rev (sort_key f (rev xs))"

definition audits_of :: "lighthouse_result \<Rightarrow> (string \<times> audit) list" where
  \<comment> \<open>\<open>lighthouse_result.get("audits", {})\<close>\<close>
  "audits_of lr = (case audits lr of None \<Rightarrow> [] | Some a \<Rightarrow> a)"

definition perf_audits_of :: "lighthouse_result \<Rightarrow> audit_ref list" where
  \<comment> \<open>\<open>categories.get("performance", {}).get("auditRefs", [])\<close>\<close>
  "perf_audits_of lr =
     (case lr_categories lr of
        None \<Rightarrow> []
      | Some c \<Rightarrow>
          (case cat_performance c of
             None \<Rightarrow> []
           | Some p \<Rightarrow> (case auditRefs p of None \<Rightarrow> [] | Some rs \<Rightarrow> rs)))"

fun opportunity_ids :: "audit_ref list \<Rightarrow> py_error + string list" where
  \<comment> \<open>The set comprehension; \<open>ref["id"]\<close> raises when a selected reference has no id.\<close>
  "opportunity_ids [] = Inr []"
| "opportunity_ids (r # rs) =
     (if ref_group r = Some ''load-opportunities'' then
        (case ref_id r of
           None \<Rightarrow> Inl KeyError
         | Some i \<Rightarrow>
             (case opportunity_ids rs of Inl e \<Rightarrow> Inl e | Inr ids \<Rightarrow> Inr (i # ids)))
      else opportunity_ids rs)"

definition make_opportunity :: "string \<Rightarrow> audit \<Rightarrow> opportunity" where
  "make_opportunity audit_id a =
     (let d = (case details a of None \<Rightarrow> \<lparr>overallSavingsMs = None, overallSavingsBytes = None\<rparr>
               | Some d \<Rightarrow> d)
      in \<lparr>opp_id = audit_id,
          opp_title = (case title a of None \<Rightarrow> '''' | Some t \<Rightarrow> t),
          opp_description = (case description a of None \<Rightarrow> '''' | Some t \<Rightarrow> t),
          savings_ms = map_option round_half_even (overallSavingsMs d),
          savings_bytes = overallSavingsBytes d\<rparr>)"

fun collect_opportunities :: "string list \<Rightarrow> (string \<times> audit) list \<Rightarrow> opportunity list" where
  \<comment> \<open>The loop over \<open>audits.items()\<close>.\<close>
  "collect_opportunities ids [] = []"
| "collect_opportunities ids ((audit_id, a) # rest) =
     (if audit_id \<notin> set ids then collect_opportunities ids rest
      else (case score a of
              None \<Rightarrow> collect_opportunities ids rest
            | Some s \<Rightarrow>
                if 9 / 10 \<le> s then collect_opportunities ids rest
                else make_opportunity audit_id a # collect_opportunities ids rest))"

definition savings_key :: "opportunity \<Rightarrow> int" where
  \<comment> \<open>\<open>lambda x: x.get("savings_ms", 0)\<close>\<close>
  "savings_key x = (case savings_ms x of None \<Rightarrow> 0 | Some n \<Rightarrow> n)"

definition parse_opportunities :: "lighthouse_result \<Rightarrow> py_error + opportunity list" where
  "parse_opportunities lr =
     (case opportunity_ids (perf_audits_of lr) of
        Inl e \<Rightarrow> Inl e
      | Inr ids \<Rightarrow> Inr (sort_reverse savings_key (collect_opportunities ids (audits_of lr))))"

definition in_load_opportunities :: "lighthouse_result \<Rightarrow> string \<Rightarrow> bool" where
  \<comment> \<open>The audit id is listed by the performance category in the load-opportunity group.\<close>
  "in_load_opportunities lr i =
     (\<exists>r \<in> set (perf_audits_of lr). ref_group r = Some ''load-opportunities'' \<and> ref_id r = Some i)"

section \<open>Network trace aggregator (capture\_network.py)\<close>

record RequestData =
  url :: string
  resource_type :: string
  start_time :: rat
  end_time :: rat
  duration_ms :: rat
  size_bytes :: int
  status :: int
  from_cache :: bool

definition type_map :: "(string \<times> string) list" where
  "type_map =
     [(''document'', ''document''), (''script'', ''script''), (''stylesheet'', ''stylesheet''),
      (''image'', ''image''), (''font'', ''font''), (''xhr'', ''xhr''), (''fetch'', ''xhr''),
      (''media'', ''media''), (''websocket'', ''websocket''), (''manifest'', ''other''),
      (''other'', ''other'')]"

definition get_resource_type :: "string \<Rightarrow> string" where
  "get_resource_type rt = (case map_of type_map rt of None \<Rightarrow> ''other'' | Some t \<Rightarrow> t)"

text \<open>
  The browser's events, in arrival order. A request carries its URL and the browser's
  resource type; a response carries the URL of its request, the status, whether a service
  worker answered, and the \<open>content-length\<close> header when there is one. Python's \<open>int\<close>,
  which reads the header, is a parameter \<open>py_int\<close> (\<open>None\<close> is its \<open>ValueError\<close>): the
  aggregation is the same whatever it reads.
\<close>

datatype event =
  Request string string
| Response string int bool "string option"

record timing_entry =
  entry_name :: string
  entry_start_time :: rat
  entry_duration :: rat
  transfer_size :: int
  encoded_body_size :: int

definition on_request :: "string \<Rightarrow> string \<Rightarrow> (string \<times> RequestData) list \<Rightarrow> (string \<times> RequestData) list" where
  "on_request u rt request_map =
     AList.update u
       \<lparr>url = u, resource_type = get_resource_type rt, start_time = 0, end_time = 0,
        duration_ms = 0, size_bytes = 0, status = 0, from_cache = False\<rparr>
       request_map"

definition on_response ::
  "(string \<Rightarrow> int option) \<Rightarrow> string \<Rightarrow> int \<Rightarrow> bool \<Rightarrow> string option \<Rightarrow>
   (string \<times> RequestData) list \<Rightarrow> (string \<times> RequestData) list" where
  "on_response py_int req_url st sw content_length request_map =
     (case map_of request_map req_url of
        None \<Rightarrow> request_map
      | Some req_data \<Rightarrow>
          (let r1 = req_data\<lparr>status := st, from_cache := sw\<rparr>;
               r2 = (case content_length of
                       None \<Rightarrow> r1
                     | Some s \<Rightarrow>
                         if s = [] then r1
                         else (case py_int s of None \<Rightarrow> r1 | Some n \<Rightarrow> r1\<lparr>size_bytes := n\<rparr>))
           in AList.update req_url r2 request_map))"

fun on_event ::
  "(string \<Rightarrow> int option) \<Rightarrow> event \<Rightarrow> (string \<times> RequestData) list \<Rightarrow> (string \<times> RequestData) list" where
  "on_event py_int (Request u rt) request_map = on_request u rt request_map"
| "on_event py_int (Response u st sw cl) request_map = on_response py_int u st sw cl request_map"

definition apply_timing :: "timing_entry \<Rightarrow> (string \<times> RequestData) list \<Rightarrow> (string \<times> RequestData) list" where
  \<comment> \<open>One round of the loop over \<open>resource_timing\<close>.\<close>
  "apply_timing entry request_map =
     (case map_of request_map (entry_name entry) of
        None \<Rightarrow> request_map
      | Some req_data \<Rightarrow>
          AList.update (entry_name entry)
            (req_data\<lparr>start_time := entry_start_time entry,
                      duration_ms := entry_duration entry,
                      size_bytes :=
                        (if 0 < transfer_size entry then transfer_size entry
                         else if 0 < encoded_body_size entry then encoded_body_size entry
                         else size_bytes req_data)\<rparr>)
            request_map)"

definition final_request_map ::
  "(string \<Rightarrow> int option) \<Rightarrow> event list \<Rightarrow> timing_entry list \<Rightarrow> (string \<times> RequestData) list" where
  "final_request_map py_int events resource_timing =
     fold apply_timing resource_timing (fold (on_event py_int) events [])"

record type_summary =
  bt_count :: int
  bt_bytes :: int

definition summary_step ::
  "RequestData \<Rightarrow> (string \<times> type_summary) list \<times> int \<Rightarrow> (string \<times> type_summary) list \<times> int" where
  \<comment> \<open>One round of the loop that fills \<open>by_type\<close> and \<open>total_bytes\<close>.\<close>
  "summary_step req acc =
     (let by_type = fst acc; total_bytes = snd acc;
          rtype = resource_type req;
          cur = (case map_of by_type rtype of
                   None \<Rightarrow> \<lparr>bt_count = 0, bt_bytes = 0\<rparr>
                 | Some t \<Rightarrow> t)
      in (AList.update rtype
            \<lparr>bt_count = bt_count cur + 1, bt_bytes = bt_bytes cur + size_bytes req\<rparr> by_type,
          total_bytes + size_bytes req))"

record largest_entry =
  le_url :: string
  le_type :: string
  le_size_bytes :: int
  le_size_kb :: rat
  le_duration_ms :: rat

definition make_largest_entry :: "RequestData \<Rightarrow> largest_entry" where
  "make_largest_entry r =
     \<lparr>le_url = url r, le_type = resource_type r, le_size_bytes = size_bytes r,
      le_size_kb = py_round (of_int (size_bytes r) / 1024) 1,
      le_duration_ms = py_round (duration_ms r) 0\<rparr>"

definition largest_records :: "RequestData list \<Rightarrow> RequestData list" where
  \<comment> \<open>The records kept by \<open>for r in sorted_by_size[:10] if r.size_bytes > 0\<close>.\<close>
  "largest_records requests_list =
     filter (\<lambda>r. 0 < size_bytes r) (take 10 (sort_reverse size_bytes requests_list))"

record network_result =
  total_requests :: int
  total_transfer_bytes :: int
  total_transfer_mb :: rat
  by_type :: "(string \<times> type_summary) list"
  largest_resources :: "largest_entry list"

definition summarize :: "RequestData list \<Rightarrow> network_result" where
  \<comment> \<open>The part of \<open>capture_network\<close> after the page has loaded.\<close>
  "summarize requests_list =
     (let acc = fold summary_step requests_list ([], 0)
      in \<lparr>total_requests = int (length requests_list),
          total_transfer_bytes = snd acc,
          total_transfer_mb = py_round (of_int (snd acc) / (1024 * 1024)) 2,
          by_type = fst acc,
          largest_resources = map make_largest_entry (largest_records requests_list)\<rparr>)"

definition capture_network ::
  "(string \<Rightarrow> int option) \<Rightarrow> event list \<Rightarrow> timing_entry list \<Rightarrow> network_result" where
  "capture_network py_int events resource_timing =
     summarize (map snd (final_request_map py_int events resource_timing))"


section \<open>Field-metrics normalizer: histogram (fetch\_crux.py)\<close>




section \<open>Report table builder (generate\_excel.py)\<close>

text \<open>
  A sheet is the list of its data rows and a row the list of the values handed to the
  workbook for columns 1, 2, and so on; the header row, the styling and what the workbook
  library does with a value are outside the embedding. Two functions of Python are
  parameters, kept in a record: \<open>str_of\<close> is \<open>str\<close> on a value that is not a string, and
  \<open>fixed0\<close> is the format \<open>.0f\<close> of a float. A string is the list of its characters,
  taken from the 8-bit range, so the characters U+FFFE and U+FFFF that the sanitizer
  also removes do not occur.
\<close>

record formats =
  str_of :: "json \<Rightarrow> string"
  fixed0 :: "rat \<Rightarrow> string"

definition py_str :: "formats \<Rightarrow> json \<Rightarrow> string" where
  \<comment> \<open>\<open>str(value)\<close>, also what an f-string puts for \<open>{value}\<close>.\<close>
  "py_str fmt v = (case v of JStr s \<Rightarrow> s | _ \<Rightarrow> str_of fmt v)"

definition is_illegal_char :: "char \<Rightarrow> bool" where
  \<comment> \<open>The class \<open>[\x00-\x08\x0B-\x0C\x0E-\x1F]\<close>.\<close>
  "is_illegal_char c =
     (let n = (of_char c :: nat) in n \<le> 8 \<or> (11 \<le> n \<and> n \<le> 12) \<or> (14 \<le> n \<and> n \<le> 31))"

definition rfind_space :: "string \<Rightarrow> int" where
  \<comment> \<open>\<open>content.rfind(' ')\<close>: the last index of a blank, or -1.\<close>
  "rfind_space s =
     (if CHR '' '' \<in> set s
      then int (length s) - 1 - int (length (takeWhile (\<lambda>c. c \<noteq> CHR '' '') (rev s)))
      else - 1)"

definition sanitize_for_excel :: "formats \<Rightarrow> json \<Rightarrow> string" where
  \<comment> \<open>With the default \<open>max_length = 32767\<close>, as every call has it. Nothing in the
      \<open>try\<close> block raises on a value of a document, so the placeholder of the
      \<open>except\<close> branch is never returned.\<close>
  "sanitize_for_excel fmt v =
     (if v = JNull then []
      else
        (let content = filter (\<lambda>c. \<not> is_illegal_char c) (py_str fmt v)
         in if 32767 < length content then
              (let content = take (32767 - 20) content;
                   last_space = rfind_space content
               in if (32767 * (8 / 10) :: rat) < of_int last_space
                  then take (nat last_space) content @ ''... [truncated]''
                  else content @ ''... [truncated]'')
            else content))"

definition upper_char :: "char \<Rightarrow> char" where
  "upper_char c =
     (case map_of (zip ''abcdefghijklmnopqrstuvwxyz'' ''ABCDEFGHIJKLMNOPQRSTUVWXYZ'') c of
        None \<Rightarrow> c
      | Some d \<Rightarrow> d)"

definition capitalize :: "string \<Rightarrow> string" where
  \<comment> \<open>\<open>str.capitalize()\<close> on the ASCII letters.\<close>
  "capitalize s = (case s of [] \<Rightarrow> [] | c # cs \<Rightarrow> upper_char c # map lower_char cs)"

fun is_substring :: "string \<Rightarrow> string \<Rightarrow> bool" where
  "is_substring k [] = (k = [])"
| "is_substring k (c # cs) = (prefix k (c # cs) \<or> is_substring k cs)"

fun py_contains :: "json \<Rightarrow> string \<Rightarrow> py_error + bool" where
  \<comment> \<open>\<open>key in x\<close> for a string \<open>key\<close>\<close>
  "py_contains (JObj kvs) k = Inr (map_of kvs k \<noteq> None)"
| "py_contains (JArr xs) k = Inr (JStr k \<in> set xs)"
| "py_contains (JStr s) k = Inr (is_substring k s)"
| "py_contains _ k = Inl TypeError"

fun py_subscript :: "json \<Rightarrow> string \<Rightarrow> py_error + json" where
  \<comment> \<open>\<open>x[key]\<close> for a string \<open>key\<close>\<close>
  "py_subscript (JObj kvs) k = (case map_of kvs k of None \<Rightarrow> Inl KeyError | Some v \<Rightarrow> Inr v)"
| "py_subscript _ k = Inl TypeError"

fun py_first :: "json \<Rightarrow> py_error + json" where
  \<comment> \<open>\<open>x[0]\<close>; the keys of an object of a document are strings, so 0 is not among them.\<close>
  "py_first (JArr xs) = (case xs of [] \<Rightarrow> Inl IndexError | x # _ \<Rightarrow> Inr x)"
| "py_first (JStr s) = (case s of [] \<Rightarrow> Inl IndexError | c # _ \<Rightarrow> Inr (JStr [c]))"
| "py_first (JObj kvs) = Inl KeyError"
| "py_first _ = Inl TypeError"

definition py_div :: "json \<Rightarrow> rat \<Rightarrow> py_error + rat" where
  \<comment> \<open>\<open>x / c\<close> for a nonzero constant \<open>c\<close>\<close>
  "py_div x c = (case as_number x of None \<Rightarrow> Inl TypeError | Some r \<Rightarrow> Inr (r / c))"

definition get_status_text :: "json \<Rightarrow> py_error + string" where
  "get_status_text metric =
     py_bind (py_get metric ''status'' (JStr [])) (\<lambda>status.
       Inr (if status = JStr ''good'' then ''Good''
            else if status = JStr ''needs_improvement'' then ''Needs Improvement''
            else if status = JStr ''poor'' then ''Poor''
            else []))"

definition format_metric :: "formats \<Rightarrow> json \<Rightarrow> py_error + string" where
  "format_metric fmt metric =
     (if \<not> truthy metric then Inr []
      else
        py_bind (py_get metric ''value'' (JStr [])) (\<lambda>v.
        py_bind (py_get metric ''unit'' (JStr [])) (\<lambda>u.
          Inr (if v = JStr [] then [] else py_str fmt v @ py_str fmt u))))"

definition format_field_metric :: "formats \<Rightarrow> json \<Rightarrow> string \<Rightarrow> string \<Rightarrow> py_error + string" where
  "format_field_metric fmt field key u =
     (if \<not> truthy field then Inr ''N/A''
      else
        py_bind (py_contains field key) (\<lambda>present.
          if \<not> present then Inr ''N/A''
          else
            py_bind (py_subscript field key) (\<lambda>v.
              if v = JNull then Inr ''N/A'' else Inr (py_str fmt v @ u))))"

definition status_cell :: "json \<Rightarrow> string \<Rightarrow> py_error + json" where
  \<comment> \<open>\<open>_get_status_text(mobile_cwv.get(kind, {}))\<close>\<close>
  "status_cell cwv kind =
     py_bind (py_get cwv kind (JObj [])) (\<lambda>m.
     py_bind (get_status_text m) (\<lambda>t. Inr (JStr t)))"

definition summary_row :: "formats \<Rightarrow> json \<Rightarrow> py_error + json list" where
  \<comment> \<open>One round of the loop of \<open>create_summary_sheet\<close>.\<close>
  "summary_row fmt psi =
     py_bind (py_get psi ''url'' (JStr [])) (\<lambda>url.
     py_bind (py_get psi ''strategies'' (JObj [])) (\<lambda>strategies.
     py_bind (py_get strategies ''mobile'' (JObj [])) (\<lambda>mobile.
     py_bind (py_get strategies ''desktop'' (JObj [])) (\<lambda>desktop.
     py_bind (py_get mobile ''core_web_vitals'' (JObj [])) (\<lambda>mobile_cwv.
     py_bind (py_get mobile ''opportunities'' (JArr [])) (\<lambda>mobile_opps.
     py_bind (if truthy mobile_opps
              then py_bind (py_first mobile_opps) (\<lambda>opp. py_get opp ''title'' (JStr []))
              else Inr (JStr [])) (\<lambda>top_issue.
     py_bind (py_get mobile ''performance_score'' (JStr [])) (\<lambda>mobile_score.
     py_bind (py_get desktop ''performance_score'' (JStr [])) (\<lambda>desktop_score.
     py_bind (status_cell mobile_cwv ''lcp'') (\<lambda>lcp.
     py_bind (status_cell mobile_cwv ''inp'') (\<lambda>inp.
     py_bind (status_cell mobile_cwv ''cls'') (\<lambda>cls.
       Inr [JStr (sanitize_for_excel fmt url), mobile_score, desktop_score, lcp, inp, cls,
            JStr (sanitize_for_excel fmt top_issue)]))))))))))))"

definition psi_results_of :: "json \<Rightarrow> py_error + json list" where
  \<comment> \<open>The entries visited by \<open>for psi in data.get("psi_results", [])\<close>.\<close>
  "psi_results_of data = py_bind (py_get data ''psi_results'' (JArr [])) py_iter"

definition create_summary_sheet :: "formats \<Rightarrow> json \<Rightarrow> py_error + json list list" where
  "create_summary_sheet fmt data =
     py_bind (psi_results_of data) (py_mapM (summary_row fmt))"

definition metric_cell :: "formats \<Rightarrow> json \<Rightarrow> py_error + json" where
  "metric_cell fmt m = py_bind (format_metric fmt m) (\<lambda>t. Inr (JStr t))"

definition field_cell :: "formats \<Rightarrow> json \<Rightarrow> string \<Rightarrow> string \<Rightarrow> py_error + json" where
  "field_cell fmt field key u = py_bind (format_field_metric fmt field key u) (\<lambda>t. Inr (JStr t))"

definition cwv_row :: "formats \<Rightarrow> json \<Rightarrow> string \<Rightarrow> json \<Rightarrow> py_error + json list" where
  \<comment> \<open>One round of the inner loop of \<open>create_core_web_vitals_sheet\<close>.\<close>
  "cwv_row fmt page_url strategy_name strategy_data =
     py_bind (py_get strategy_data ''core_web_vitals'' (JObj [])) (\<lambda>cwv.
     py_bind (py_get strategy_data ''field_metrics'' (JObj [])) (\<lambda>field0.
     (let field = (if truthy field0 then field0 else JObj []) in
     py_bind (py_get cwv ''lcp'' (JObj [])) (\<lambda>lcp.
     py_bind (py_get cwv ''inp'' (JObj [])) (\<lambda>inp.
     py_bind (py_get cwv ''cls'' (JObj [])) (\<lambda>cls.
     py_bind (py_get cwv ''fcp'' (JObj [])) (\<lambda>fcp.
     py_bind (py_get cwv ''ttfb'' (JObj [])) (\<lambda>ttfb.
     py_bind (py_get cwv ''tbt'' (JObj [])) (\<lambda>tbt.
     py_bind (py_get strategy_data ''performance_score'' (JStr [])) (\<lambda>score.
     py_bind (metric_cell fmt lcp) (\<lambda>c4.
     py_bind (field_cell fmt field ''lcp_p75'' ''s'') (\<lambda>c5.
     py_bind (metric_cell fmt inp) (\<lambda>c6.
     py_bind (field_cell fmt field ''inp_p75'' ''ms'') (\<lambda>c7.
     py_bind (metric_cell fmt cls) (\<lambda>c8.
     py_bind (field_cell fmt field ''cls_p75'' []) (\<lambda>c9.
     py_bind (metric_cell fmt fcp) (\<lambda>c10.
     py_bind (metric_cell fmt ttfb) (\<lambda>c11.
     py_bind (metric_cell fmt tbt) (\<lambda>c12.
       Inr [JStr (sanitize_for_excel fmt page_url), JStr (capitalize strategy_name), score,
            c4, c5, c6, c7, c8, c9, c10, c11, c12])))))))))))))))))))"

definition cwv_rows_of :: "formats \<Rightarrow> json \<Rightarrow> py_error + json list list" where
  \<comment> \<open>The rows of one entry of \<open>psi_results\<close>, one per strategy.\<close>
  "cwv_rows_of fmt psi =
     py_bind (py_get psi ''url'' (JStr [])) (\<lambda>url.
     py_bind (py_get psi ''strategies'' (JObj [])) (\<lambda>strategies.
     py_bind (py_items strategies) (\<lambda>items.
       py_mapM (\<lambda>p. cwv_row fmt url (fst p) (snd p)) items)))"

definition create_core_web_vitals_sheet :: "formats \<Rightarrow> json \<Rightarrow> py_error + json list list" where
  "create_core_web_vitals_sheet fmt data =
     py_bind (psi_results_of data) (\<lambda>psi_results.
     py_bind (py_mapM (cwv_rows_of fmt) psi_results) (\<lambda>rows. Inr (concat rows)))"

definition get_or :: "json \<Rightarrow> string \<Rightarrow> json \<Rightarrow> string \<Rightarrow> json \<Rightarrow> py_error + json" where
  \<comment> \<open>\<open>network.get(k) or summary.get(k, default)\<close>\<close>
  "get_or network k summary k' dflt =
     py_bind (py_get network k JNull) (\<lambda>v.
       if truthy v then Inr v else py_get summary k' dflt)"

definition last_segment :: "json \<Rightarrow> py_error + string" where
  \<comment> \<open>\<open>u.split('/')[-1]\<close>\<close>
  "last_segment u =
     (case u of
        JStr s \<Rightarrow> Inr (rev (takeWhile (\<lambda>c. c \<noteq> CHR ''/'') (rev s)))
      | _ \<Rightarrow> Inl AttributeError)"

definition largest_name :: "formats \<Rightarrow> json \<Rightarrow> py_error + string" where
  "largest_name fmt largest =
     (if truthy largest then
        py_bind (py_first largest) (\<lambda>resource.
        py_bind (py_get resource ''size_bytes'' (JInt 0)) (\<lambda>sb.
        py_bind (py_div sb 1024) (\<lambda>size_kb.
        py_bind (py_get resource ''url'' (JStr [])) (\<lambda>u.
        py_bind (last_segment u) (\<lambda>seg.
          Inr (take 30 seg @ '' ('' @ fixed0 fmt size_kb @ ''KB)''))))))
      else Inr [])"

definition kb_cell :: "json \<Rightarrow> py_error + json" where
  \<comment> \<open>\<open>round(t.get("bytes", 0) / 1024, 0)\<close>\<close>
  "kb_cell t =
     py_bind (py_get t ''bytes'' (JInt 0)) (\<lambda>b.
     py_bind (py_div b 1024) (\<lambda>kb. Inr (JFloat (py_round kb 0))))"

definition network_row :: "formats \<Rightarrow> json \<Rightarrow> py_error + json list" where
  \<comment> \<open>One round of the loop of \<open>create_network_analysis_sheet\<close>.\<close>
  "network_row fmt network =
     py_bind (py_get network ''url'' (JStr [])) (\<lambda>url.
     py_bind (py_get network ''summary'' (JObj [])) (\<lambda>summary.
     py_bind (get_or network ''by_type'' summary ''by_type'' (JObj [])) (\<lambda>by_type.
     py_bind (get_or network ''total_requests'' summary ''total_requests'' (JInt 0)) (\<lambda>total_requests.
     py_bind (get_or network ''total_transfer_bytes'' summary ''total_transfer_bytes'' (JInt 0))
       (\<lambda>total_bytes.
     py_bind (py_get network ''largest_resources'' (JArr [])) (\<lambda>largest.
     py_bind (py_get by_type ''script'' (JObj [])) (\<lambda>scripts.
     py_bind (py_get by_type ''image'' (JObj [])) (\<lambda>images.
     py_bind (py_get by_type ''stylesheet'' (JObj [])) (\<lambda>css.
     py_bind (py_get by_type ''font'' (JObj [])) (\<lambda>fonts.
     py_bind (largest_name fmt largest) (\<lambda>name.
     py_bind (py_div total_bytes 1024) (\<lambda>kb.
     py_bind (py_get scripts ''count'' (JInt 0)) (\<lambda>c4.
     py_bind (kb_cell scripts) (\<lambda>c5.
     py_bind (py_get images ''count'' (JInt 0)) (\<lambda>c6.
     py_bind (kb_cell images) (\<lambda>c7.
     py_bind (py_get css ''count'' (JInt 0)) (\<lambda>c8.
     py_bind (kb_cell css) (\<lambda>c9.
     py_bind (py_get fonts ''count'' (JInt 0)) (\<lambda>c10.
     py_bind (kb_cell fonts) (\<lambda>c11.
       Inr [JStr (sanitize_for_excel fmt url), total_requests,
            JFloat (py_round (kb / 1024) 2), c4, c5, c6, c7, c8, c9, c10, c11,
            JStr (sanitize_for_excel fmt (JStr name))]))))))))))))))))))))"

definition create_network_analysis_sheet :: "formats \<Rightarrow> json \<Rightarrow> py_error + json list list" where
  "create_network_analysis_sheet fmt data =
     py_bind (py_get data ''network_results'' (JArr [])) (\<lambda>network_results.
     py_bind (py_iter network_results) (py_mapM (network_row fmt)))"

fun py_len :: "json \<Rightarrow> py_error + nat" where
  "py_len (JStr s) = Inr (length s)"
| "py_len (JArr xs) = Inr (length xs)"
| "py_len (JObj kvs) = Inr (length kvs)"
| "py_len _ = Inl TypeError"

definition truncate_description :: "json \<Rightarrow> py_error + json" where
  \<comment> \<open>\<open>if len(desc) > 200: desc = desc[:197] + "..."\<close>; a list or a dict of more than
      200 entries cannot be sliced and joined to a string.\<close>
  "truncate_description desc =
     py_bind (py_len desc) (\<lambda>n.
       if 200 < n then
         (case desc of JStr s \<Rightarrow> Inr (JStr (take 197 s @ ''...'')) | _ \<Rightarrow> Inl TypeError)
       else Inr desc)"

definition savings_kb_cell :: "json \<Rightarrow> py_error + json" where
  \<comment> \<open>\<open>round(savings_bytes / 1024, 1) if savings_bytes else ""\<close>\<close>
  "savings_kb_cell sb =
     (if truthy sb then py_bind (py_div sb 1024) (\<lambda>kb. Inr (JFloat (py_round kb 1)))
      else Inr (JStr []))"

definition opportunity_row :: "formats \<Rightarrow> json \<Rightarrow> string \<Rightarrow> json \<Rightarrow> py_error + json list" where
  \<comment> \<open>One round of the innermost loop of \<open>create_opportunities_sheet\<close>.\<close>
  "opportunity_row fmt page_url strategy_name opp =
     py_bind (py_get opp ''title'' (JStr [])) (\<lambda>t.
     py_bind (py_get opp ''savings_ms'' (JStr [])) (\<lambda>ms.
     py_bind (py_get opp ''savings_bytes'' (JInt 0)) (\<lambda>sb.
     py_bind (savings_kb_cell sb) (\<lambda>kb.
     py_bind (py_get opp ''description'' (JStr [])) (\<lambda>desc.
     py_bind (truncate_description desc) (\<lambda>desc.
       Inr [JStr (sanitize_for_excel fmt page_url), JStr (capitalize strategy_name),
            JStr (sanitize_for_excel fmt t), ms, kb,
            JStr (sanitize_for_excel fmt desc)]))))))"

definition strategy_opportunity_rows ::
  "formats \<Rightarrow> json \<Rightarrow> string \<Rightarrow> json \<Rightarrow> py_error + json list list" where
  "strategy_opportunity_rows fmt page_url strategy_name strategy_data =
     py_bind (py_get strategy_data ''opportunities'' (JArr [])) (\<lambda>opportunities.
     py_bind (py_iter opportunities) (py_mapM (opportunity_row fmt page_url strategy_name)))"

definition opportunity_rows_of :: "formats \<Rightarrow> json \<Rightarrow> py_error + json list list" where
  \<comment> \<open>The rows of one entry of \<open>psi_results\<close>.\<close>
  "opportunity_rows_of fmt psi =
     py_bind (py_get psi ''url'' (JStr [])) (\<lambda>url.
     py_bind (py_get psi ''strategies'' (JObj [])) (\<lambda>strategies.
     py_bind (py_items strategies) (\<lambda>items.
     py_bind (py_mapM (\<lambda>p. strategy_opportunity_rows fmt url (fst p) (snd p)) items)
       (\<lambda>rows. Inr (concat rows)))))"

definition create_opportunities_sheet :: "formats \<Rightarrow> json \<Rightarrow> py_error + json list list" where
  "create_opportunities_sheet fmt data =
     py_bind (psi_results_of data) (\<lambda>psi_results.
     py_bind (py_mapM (opportunity_rows_of fmt) psi_results) (\<lambda>rows. Inr (concat rows)))"

section \<open>Statements about the report tables\<close>

subsection \<open>Fields of a document by path\<close>

fun lookup :: "json \<Rightarrow> string list \<Rightarrow> json option" where
  \<comment> \<open>The value reached from \<open>v\<close> by the keys of the path; \<open>None\<close> when a key on the
      way is absent or the value there is not an object.\<close>
  "lookup v [] = Some v"
| "lookup (JObj kvs) (k # ks) = (case map_of kvs k of None \<Rightarrow> None | Some w \<Rightarrow> lookup w ks)"
| "lookup _ (k # ks) = None"

definition field_at :: "json \<Rightarrow> string list \<Rightarrow> json \<Rightarrow> json" where
  \<comment> \<open>The nested field at a path, or the default when it is missing.\<close>
  "field_at v p dflt = (case lookup v p of None \<Rightarrow> dflt | Some w \<Rightarrow> w)"


subsection \<open>Documents with fields missing\<close>

text \<open>
  A document may lack any key. Where a key is present, its value has the shape the
  builder relies on: an object where fields are read from it, an array where it is
  looped over, a number where it is divided, a string where it is cut.
\<close>

definition is_obj :: "json \<Rightarrow> bool" where
  "is_obj v = (case v of JObj kvs \<Rightarrow> True | _ \<Rightarrow> False)"

definition is_number :: "json \<Rightarrow> bool" where
  "is_number v = (case v of JInt n \<Rightarrow> True | JFloat r \<Rightarrow> True | _ \<Rightarrow> False)"

definition is_string :: "json \<Rightarrow> bool" where
  "is_string v = (case v of JStr s \<Rightarrow> True | _ \<Rightarrow> False)"

definition obj_with :: "((string \<times> json) list \<Rightarrow> bool) \<Rightarrow> json \<Rightarrow> bool" where
  "obj_with P v = (case v of JObj kvs \<Rightarrow> P kvs | _ \<Rightarrow> False)"

definition arr_of :: "(json \<Rightarrow> bool) \<Rightarrow> json \<Rightarrow> bool" where
  "arr_of P v = (case v of JArr xs \<Rightarrow> list_all P xs | _ \<Rightarrow> False)"

definition opt :: "(string \<times> json) list \<Rightarrow> string \<Rightarrow> (json \<Rightarrow> bool) \<Rightarrow> bool" where
  \<comment> \<open>The key is absent, or its value satisfies \<open>P\<close>.\<close>
  "opt kvs k P = (case map_of kvs k of None \<Rightarrow> True | Some v \<Rightarrow> P v)"

definition wf_cwv :: "json \<Rightarrow> bool" where
  "wf_cwv = obj_with (\<lambda>kvs. list_all (\<lambda>k. opt kvs k is_obj)
      [''lcp'', ''inp'', ''cls'', ''fcp'', ''ttfb'', ''tbt''])"

definition wf_field :: "json \<Rightarrow> bool" where
  "wf_field v = (v = JNull \<or> is_obj v)"

definition wf_opp :: "json \<Rightarrow> bool" where
  "wf_opp = obj_with (\<lambda>kvs. opt kvs ''savings_bytes'' is_number
      \<and> opt kvs ''description'' is_string)"

definition wf_strategy :: "json \<Rightarrow> bool" where
  "wf_strategy = obj_with (\<lambda>kvs. opt kvs ''core_web_vitals'' wf_cwv
      \<and> opt kvs ''field_metrics'' wf_field
      \<and> opt kvs ''opportunities'' (arr_of wf_opp))"

definition wf_strategies :: "json \<Rightarrow> bool" where
  "wf_strategies = obj_with (list_all (\<lambda>p. wf_strategy (snd p)))"

definition wf_psi :: "json \<Rightarrow> bool" where
  "wf_psi = obj_with (\<lambda>kvs. opt kvs ''strategies'' wf_strategies)"

definition wf_type_summary :: "json \<Rightarrow> bool" where
  "wf_type_summary = obj_with (\<lambda>kvs. opt kvs ''bytes'' is_number)"

definition wf_by_type :: "json \<Rightarrow> bool" where
  "wf_by_type = obj_with (\<lambda>kvs. list_all (\<lambda>k. opt kvs k wf_type_summary)
      [''script'', ''image'', ''stylesheet'', ''font''])"

definition wf_summary :: "json \<Rightarrow> bool" where
  "wf_summary = obj_with (\<lambda>kvs. opt kvs ''by_type'' wf_by_type
      \<and> opt kvs ''total_transfer_bytes'' is_number)"

definition wf_resource :: "json \<Rightarrow> bool" where
  "wf_resource = obj_with (\<lambda>kvs. opt kvs ''size_bytes'' is_number \<and> opt kvs ''url'' is_string)"

definition wf_network :: "json \<Rightarrow> bool" where
  "wf_network = obj_with (\<lambda>kvs. opt kvs ''summary'' wf_summary
      \<and> opt kvs ''by_type'' wf_by_type
      \<and> opt kvs ''total_transfer_bytes'' is_number
      \<and> opt kvs ''largest_resources'' (arr_of wf_resource))"

definition wf_data :: "json \<Rightarrow> bool" where
  "wf_data = obj_with (\<lambda>kvs. opt kvs ''psi_results'' (arr_of wf_psi)
      \<and> opt kvs ''network_results'' (arr_of wf_network))"

subsection \<open>The cells of a row in terms of the fields\<close>

definition entries :: "json \<Rightarrow> string \<Rightarrow> json list" where
  \<comment> \<open>The elements of the array under a key of the document, none when it is missing.\<close>
  "entries data k = (case field_at data [k] (JArr []) of JArr xs \<Rightarrow> xs | _ \<Rightarrow> [])"

definition strategy_items :: "json \<Rightarrow> (string \<times> json) list" where
  "strategy_items psi =
     (case field_at psi [''strategies''] (JObj []) of JObj items \<Rightarrow> items | _ \<Rightarrow> [])"





definition metric_text :: "formats \<Rightarrow> json \<Rightarrow> string \<Rightarrow> string" where
  \<comment> \<open>A lab cell: value and unit, empty when the metric or its value is missing.\<close>
  "metric_text fmt sd kind =
     (let v = field_at sd [''core_web_vitals'', kind, ''value''] (JStr [])
      in if v = JStr [] then []
         else py_str fmt v @ py_str fmt (field_at sd [''core_web_vitals'', kind, ''unit''] (JStr [])))"

definition field_value :: "json \<Rightarrow> string \<Rightarrow> json option" where
  \<comment> \<open>The page-level field metric under a key: \<open>None\<close> when the field mapping or the
      key is absent or null.\<close>
  "field_value sd key =
     (case lookup sd [''field_metrics'', key] of
        None \<Rightarrow> None
      | Some v \<Rightarrow> if v = JNull then None else Some v)"

definition field_text :: "formats \<Rightarrow> json \<Rightarrow> string \<Rightarrow> string \<Rightarrow> string" where
  \<comment> \<open>A field cell: value and unit when the metric is present, \<open>N/A\<close> otherwise.\<close>
  "field_text fmt sd key u =
     (case field_value sd key of None \<Rightarrow> ''N/A'' | Some v \<Rightarrow> py_str fmt v @ u)"

definition cwv_cells :: "formats \<Rightarrow> json \<Rightarrow> string \<Rightarrow> json \<Rightarrow> json list" where
  "cwv_cells fmt page_url strategy_name sd =
     [JStr (sanitize_for_excel fmt page_url), JStr (capitalize strategy_name),
      field_at sd [''performance_score''] (JStr []),
      JStr (metric_text fmt sd ''lcp''), JStr (field_text fmt sd ''lcp_p75'' ''s''),
      JStr (metric_text fmt sd ''inp''), JStr (field_text fmt sd ''inp_p75'' ''ms''),
      JStr (metric_text fmt sd ''cls''), JStr (field_text fmt sd ''cls_p75'' []),
      JStr (metric_text fmt sd ''fcp''), JStr (metric_text fmt sd ''ttfb''),
      JStr (metric_text fmt sd ''tbt'')]"


definition truncated :: "json \<Rightarrow> json" where
  "truncated desc =
     (case desc of
        JStr s \<Rightarrow> if 200 < length s then JStr (take 197 s @ ''...'') else JStr s
      | _ \<Rightarrow> desc)"






definition cwv_sheet_rows :: "formats \<Rightarrow> json \<Rightarrow> json list list" where
  \<comment> \<open>The Core Web Vitals rows of one page: one per strategy present.\<close>
  "cwv_sheet_rows fmt psi =
     map (\<lambda>p. cwv_cells fmt (field_at psi [''url''] (JStr [])) (fst p) (snd p))
       (strategy_items psi)"


subsection \<open>Documents that differ only in the origin field metrics\<close>

definition erase_strategy :: "json \<Rightarrow> json" where
  \<comment> \<open>A strategy result without its \<open>origin_field_metrics\<close>.\<close>
  "erase_strategy sd =
     (case sd of
        JObj kvs \<Rightarrow> JObj (filter (\<lambda>p. fst p \<noteq> ''origin_field_metrics'') kvs)
      | _ \<Rightarrow> sd)"

definition erase_strategies :: "json \<Rightarrow> json" where
  "erase_strategies s =
     (case s of
        JObj items \<Rightarrow> JObj (map (\<lambda>p. (fst p, erase_strategy (snd p))) items)
      | _ \<Rightarrow> s)"

definition map_key :: "string \<Rightarrow> (json \<Rightarrow> json) \<Rightarrow> (string \<times> json) list \<Rightarrow> (string \<times> json) list" where
  \<comment> \<open>Change the value under one key.\<close>
  "map_key k f kvs = map (\<lambda>p. if fst p = k then (fst p, f (snd p)) else p) kvs"

definition erase_psi :: "json \<Rightarrow> json" where
  "erase_psi psi =
     (case psi of JObj kvs \<Rightarrow> JObj (map_key ''strategies'' erase_strategies kvs) | _ \<Rightarrow> psi)"

definition erase_results :: "json \<Rightarrow> json" where
  "erase_results r = (case r of JArr xs \<Rightarrow> JArr (map erase_psi xs) | _ \<Rightarrow> r)"

definition erase_origin :: "json \<Rightarrow> json" where
  \<comment> \<open>The document with the \<open>origin_field_metrics\<close> of every strategy result removed; two
      documents differ only in the origin field metrics when this makes them equal.\<close>
  "erase_origin data =
     (case data of JObj kvs \<Rightarrow> JObj (map_key ''psi_results'' erase_results kvs) | _ \<Rightarrow> data)"

section \<open>Statements about the classifier and the aggregates\<close>

definition band_rank :: "string \<Rightarrow> nat" where
  \<comment> \<open>The order of the bands: good, then needs\_improvement, then poor.\<close>
  "band_rank s = (if s = ''good'' then 0 else if s = ''needs_improvement'' then 1 else 2)"

definition follows_policy :: "(rat \<Rightarrow> string) \<Rightarrow> rat \<Rightarrow> rat \<Rightarrow> bool" where
  \<comment> \<open>The classification policy for one kind with thresholds \<open>g\<close> and \<open>p\<close>.\<close>
  "follows_policy classify g p =
     (\<forall>v. (classify v = ''good'') = (v \<le> g)
        \<and> (classify v = ''needs_improvement'') = (g < v \<and> v \<le> p)
        \<and> (classify v = ''poor'') = (p < v))"






definition qualifies :: "lighthouse_result \<Rightarrow> string \<times> audit \<Rightarrow> bool" where
  \<comment> \<open>An audit of the load-opportunity group whose score is present and below 0.9.\<close>
  "qualifies lr p =
     (in_load_opportunities lr (fst p)
      \<and> (case score (snd p) of None \<Rightarrow> False | Some s \<Rightarrow> s < 9 / 10))"

definition candidates :: "lighthouse_result \<Rightarrow> opportunity list" where
  \<comment> \<open>The opportunities of the qualifying audits, in the provider's order.\<close>
  "candidates lr =
     map (\<lambda>p. make_opportunity (fst p) (snd p)) (filter (qualifies lr) (audits_of lr))"

section \<open>Sample inputs\<close>

definition sample_audit :: "rat \<Rightarrow> rat \<Rightarrow> audit" where
  \<comment> \<open>An audit with a score and an estimated saving in milliseconds.\<close>
  "sample_audit s ms =
     \<lparr>score = Some s, title = Some ''t'', description = None,
      details = Some \<lparr>overallSavingsMs = Some ms, overallSavingsBytes = None\<rparr>\<rparr>"

definition sample_ref :: "string \<Rightarrow> audit_ref" where
  "sample_ref i = \<lparr>ref_id = Some i, ref_group = Some ''load-opportunities''\<rparr>"

definition sample_lighthouse_result :: lighthouse_result where
  \<comment> \<open>Four opportunity audits: two failing ones with equal savings, one with larger
      savings and a passing one.\<close>
  "sample_lighthouse_result =
     \<lparr>audits = Some [(''a'', sample_audit (1 / 2) 100), (''b'', sample_audit 1 900),
                     (''c'', sample_audit (3 / 10) 300), (''d'', sample_audit 0 100)],
      lr_categories = Some \<lparr>cat_performance = Some
        \<lparr>perf_score = Some (1 / 2),
         auditRefs = Some [sample_ref ''a'', sample_ref ''b'', sample_ref ''c'',
                           sample_ref ''d'']\<rparr>\<rparr>\<rparr>"

definition sample_request :: "string \<Rightarrow> int \<Rightarrow> RequestData" where
  "sample_request u n =
     \<lparr>url = u, resource_type = ''script'', start_time = 0, end_time = 0,
      duration_ms = 0, size_bytes = n, status = 200, from_cache = False\<rparr>"

definition sample_formats :: formats where
  \<comment> \<open>Stand-ins for \<open>str\<close> and the format \<open>.0f\<close>: every value is shown as \<open>#\<close>.\<close>
  "sample_formats = \<lparr>str_of = (\<lambda>v. ''#''), fixed0 = (\<lambda>r. ''#'')\<rparr>"



definition origin_only_strategy :: "json \<Rightarrow> json" where
  \<comment> \<open>A result with no page-level field data (null) and the given origin field data.\<close>
  "origin_only_strategy origin =
     JObj [(''performance_score'', JInt 55), (''field_metrics'', JNull),
           (''origin_field_metrics'', origin)]"

definition origin_only_data :: "json \<Rightarrow> json" where
  "origin_only_data origin =
     JObj [(''psi_results'',
              JArr [JObj [(''url'', JStr ''a''),
                          (''strategies'', JObj [(''mobile'', origin_only_strategy origin)])]])]"


section \<open>Properties\<close>

subsection \<open>Threshold classifier\<close>



lemma lower_simps:
  "lower ''lcp'' = ''lcp''" "lower ''inp'' = ''inp''" "lower ''cls'' = ''cls''"
  "lower ''fcp'' = ''fcp''" "lower ''ttfb'' = ''ttfb''" "lower ''fid'' = ''fid''"
  "lower ''tbt'' = ''tbt''" "lower ''LCP'' = ''lcp''"
  by (simp_all add: lower_def lower_char_def)

lemma psi_policy:
  "map_of psi_CWV_THRESHOLDS (lower m) = Some t \<Longrightarrow> good t < poor t \<Longrightarrow>
   follows_policy (psi_get_status m) (good t) (poor t)"
  by (auto simp: follows_policy_def psi_get_status_def le_threshold_def)

lemma crux_policy:
  "map_of crux_CWV_THRESHOLDS k = Some t \<Longrightarrow> good t < poor t \<Longrightarrow>
   follows_policy (crux_get_status k) (good t) (poor t)"
  by (auto simp: follows_policy_def crux_get_status_def le_threshold_def)

lemma psi_policy_lcp: "follows_policy (psi_get_status ''lcp'') 2500 4000"
  using psi_policy [of "''lcp''" "\<lparr>good = 2500, poor = 4000, unit = ''ms''\<rparr>"]
  by (simp add: lower_simps psi_CWV_THRESHOLDS_def)

lemma psi_policy_inp: "follows_policy (psi_get_status ''inp'') 200 500"
  using psi_policy [of "''inp''" "\<lparr>good = 200, poor = 500, unit = ''ms''\<rparr>"]
  by (simp add: lower_simps psi_CWV_THRESHOLDS_def)

lemma psi_policy_cls: "follows_policy (psi_get_status ''cls'') (1 / 10) (25 / 100)"
  using psi_policy [of "''cls''" "\<lparr>good = 1 / 10, poor = 25 / 100, unit = ''''\<rparr>"]
  by (simp add: lower_simps psi_CWV_THRESHOLDS_def)

lemma psi_policy_fcp: "follows_policy (psi_get_status ''fcp'') 1800 3000"
  using psi_policy [of "''fcp''" "\<lparr>good = 1800, poor = 3000, unit = ''ms''\<rparr>"]
  by (simp add: lower_simps psi_CWV_THRESHOLDS_def)

lemma psi_policy_ttfb: "follows_policy (psi_get_status ''ttfb'') 800 1800"
  using psi_policy [of "''ttfb''" "\<lparr>good = 800, poor = 1800, unit = ''ms''\<rparr>"]
  by (simp add: lower_simps psi_CWV_THRESHOLDS_def)

lemma crux_policy_lcp: "follows_policy (crux_get_status ''largest_contentful_paint'') 2500 4000"
  using crux_policy [of "''largest_contentful_paint''"
      "\<lparr>good = 2500, poor = 4000, unit = ''ms'', display = ''s''\<rparr>"]
  by (simp add: crux_CWV_THRESHOLDS_def)

lemma crux_policy_inp: "follows_policy (crux_get_status ''interaction_to_next_paint'') 200 500"
  using crux_policy [of "''interaction_to_next_paint''"
      "\<lparr>good = 200, poor = 500, unit = ''ms'', display = ''ms''\<rparr>"]
  by (simp add: crux_CWV_THRESHOLDS_def)

lemma crux_policy_cls:
  "follows_policy (crux_get_status ''cumulative_layout_shift'') (1 / 10) (25 / 100)"
  using crux_policy [of "''cumulative_layout_shift''"
      "\<lparr>good = 1 / 10, poor = 25 / 100, unit = '''', display = ''''\<rparr>"]
  by (simp add: crux_CWV_THRESHOLDS_def)

lemma crux_policy_fcp: "follows_policy (crux_get_status ''first_contentful_paint'') 1800 3000"
  using crux_policy [of "''first_contentful_paint''"
      "\<lparr>good = 1800, poor = 3000, unit = ''ms'', display = ''s''\<rparr>"]
  by (simp add: crux_CWV_THRESHOLDS_def)

lemma crux_policy_ttfb:
  "follows_policy (crux_get_status ''experimental_time_to_first_byte'') 800 1800"
  using crux_policy [of "''experimental_time_to_first_byte''"
      "\<lparr>good = 800, poor = 1800, unit = ''ms'', display = ''s''\<rparr>"]
  by (simp add: crux_CWV_THRESHOLDS_def)

lemma crux_policy_fid: "follows_policy (crux_get_status ''first_input_delay'') 100 300"
  using crux_policy [of "''first_input_delay''"
      "\<lparr>good = 100, poor = 300, unit = ''ms'', display = ''ms''\<rparr>"]
  by (simp add: crux_CWV_THRESHOLDS_def)

lemma psi_fid_good: "psi_get_status ''fid'' v = ''good''"
  by (simp add: psi_get_status_def lower_simps psi_CWV_THRESHOLDS_def le_threshold_def)

text \<open>
  C1, as stated, fails for FID on the lab side: the lab-side table of \<open>fetch_psi.py\<close> has
  no FID entry, so a raw FID of 400 (above the poor threshold 300) is classified good
  there, while the field-side classifier calls it poor.
\<close>

theorem lab_classifier_fid_counterexample:
  "psi_get_status ''fid'' 400 = ''good''
   \<and> crux_get_status ''first_input_delay'' 400 = ''poor''
   \<and> \<not> follows_policy (psi_get_status ''fid'') 100 300"
proof -
  have a: "psi_get_status ''fid'' 400 = ''good''" by (rule psi_fid_good)
  have b: "crux_get_status ''first_input_delay'' 400 = ''poor''"
    by (simp add: crux_get_status_def crux_CWV_THRESHOLDS_def le_threshold_def)
  have "\<not> follows_policy (psi_get_status ''fid'') 100 300"
  proof
    assume "follows_policy (psi_get_status ''fid'') 100 300"
    then have "(psi_get_status ''fid'' 400 = ''good'') = ((400::rat) \<le> 100)"
      unfolding follows_policy_def by blast
    with a show False by simp
  qed
  with a b show ?thesis by blast
qed

text \<open>
  C1 (amended): for every raw value the classifier returns good iff the value is at most
  the good threshold, needs\_improvement iff it is above the good and at most the poor
  threshold, and poor iff it is above the poor threshold. This holds in the lab-side
  classifier for LCP (2500/4000), INP (200/500), CLS (0.1/0.25), FCP (1800/3000) and
  TTFB (800/1800), and in the field-side classifier for these five and for FID
  (100/300). The lab-side table has no FID entry: there every FID value is good.
\<close>

theorem classifier_policy:
  "follows_policy (psi_get_status ''lcp'') 2500 4000
   \<and> follows_policy (psi_get_status ''inp'') 200 500
   \<and> follows_policy (psi_get_status ''cls'') (1 / 10) (25 / 100)
   \<and> follows_policy (psi_get_status ''fcp'') 1800 3000
   \<and> follows_policy (psi_get_status ''ttfb'') 800 1800
   \<and> follows_policy (crux_get_status ''largest_contentful_paint'') 2500 4000
   \<and> follows_policy (crux_get_status ''interaction_to_next_paint'') 200 500
   \<and> follows_policy (crux_get_status ''cumulative_layout_shift'') (1 / 10) (25 / 100)
   \<and> follows_policy (crux_get_status ''first_contentful_paint'') 1800 3000
   \<and> follows_policy (crux_get_status ''experimental_time_to_first_byte'') 800 1800
   \<and> follows_policy (crux_get_status ''first_input_delay'') 100 300
   \<and> (\<forall>v. psi_get_status ''fid'' v = ''good'')"
  by (intro conjI allI psi_policy_lcp psi_policy_inp psi_policy_cls psi_policy_fcp
      psi_policy_ttfb crux_policy_lcp crux_policy_inp crux_policy_cls crux_policy_fcp
      crux_policy_ttfb crux_policy_fid psi_fid_good)

lemma psi_ordered: "map_of psi_CWV_THRESHOLDS k = Some t \<Longrightarrow> good t \<le> poor t"
  by (auto simp: psi_CWV_THRESHOLDS_def split: if_splits)

lemma crux_ordered: "map_of crux_CWV_THRESHOLDS k = Some t \<Longrightarrow> good t \<le> poor t"
  by (auto simp: crux_CWV_THRESHOLDS_def split: if_splits)

lemma psi_mono:
  "v1 \<le> v2 \<Longrightarrow> band_rank (psi_get_status m v1) \<le> band_rank (psi_get_status m v2)"
  using psi_ordered [of "lower m"]
  by (cases "map_of psi_CWV_THRESHOLDS (lower m)")
     (auto simp: psi_get_status_def le_threshold_def band_rank_def)

lemma crux_mono:
  "v1 \<le> v2 \<Longrightarrow> band_rank (crux_get_status k v1) \<le> band_rank (crux_get_status k v2)"
  using crux_ordered [of k]
  by (cases "map_of crux_CWV_THRESHOLDS k")
     (auto simp: crux_get_status_def le_threshold_def band_rank_def)

text \<open>
  C6: classification is monotonic in the raw value. If \<open>v1 \<le> v2\<close> then the band of
  \<open>v1\<close> is at most as bad as the band of \<open>v2\<close> in the order good, needs\_improvement,
  poor, in the lab-side and in the field-side classifier, for every kind (so for every
  kind with a table entry).
\<close>

theorem classify_monotonic:
  "v1 \<le> v2 \<Longrightarrow>
   band_rank (psi_get_status m v1) \<le> band_rank (psi_get_status m v2)
   \<and> band_rank (crux_get_status k v1) \<le> band_rank (crux_get_status k v2)"
  by (simp add: psi_mono crux_mono)

text \<open>
  Witness for C6: raw LCP values 2000 and 4200 are in this order, and their bands are
  good (rank 0) and poor (rank 2) on both sides.
\<close>

theorem classify_monotonic_witness:
  "(2000::rat) \<le> 4200
   \<and> band_rank (psi_get_status ''lcp'' 2000) \<le> band_rank (psi_get_status ''lcp'' 4200)
   \<and> band_rank (crux_get_status ''largest_contentful_paint'' 2000)
       \<le> band_rank (crux_get_status ''largest_contentful_paint'' 4200)
   \<and> psi_get_status ''lcp'' 2000 = ''good'' \<and> psi_get_status ''lcp'' 4200 = ''poor''"
proof -
  have h: "(2000::rat) \<le> 4200" by simp
  have "psi_get_status ''lcp'' 2000 = ''good''" "psi_get_status ''lcp'' 4200 = ''poor''"
    by (simp_all add: psi_get_status_def lower_simps psi_CWV_THRESHOLDS_def le_threshold_def)
  with h classify_monotonic [OF h, of "''lcp''" "''largest_contentful_paint''"]
  show ?thesis by blast
qed





subsection \<open>Evaluating the rounding on concrete fractions\<close>

lemma floor_rat_numeral:
  "\<lfloor>numeral a / numeral b :: rat\<rfloor> = numeral a div numeral b"
  "\<lfloor>- (numeral a / numeral b) :: rat\<rfloor> = - numeral a div numeral b"
  by (metis floor_divide_of_int_eq of_int_numeral,
      metis divide_minus_left floor_divide_of_int_eq of_int_neg_numeral of_int_numeral)

subsection \<open>Reversed stable sort\<close>

lemma sort_reverse_descending: "sorted_wrt (\<lambda>x y. f y \<le> f x) (sort_reverse f xs)"
proof -
  have "sorted_wrt (\<lambda>x y. f x \<le> f y) (sort_key f (rev xs))"
    using sorted_sort_key [of f "rev xs"] by (simp add: sorted_wrt_map)
  then show ?thesis
    by (simp add: sort_reverse_def sorted_wrt_rev)
qed

lemma sort_reverse_stable:
  "filter (\<lambda>x. f x = k) (sort_reverse f xs) = filter (\<lambda>x. f x = k) xs"
  by (simp add: sort_reverse_def sort_key_stable flip: rev_filter)

lemma set_sort_reverse: "set (sort_reverse f xs) = set xs"
  by (simp add: sort_reverse_def)

subsection \<open>Opportunities\<close>

lemma opportunity_ids_sound:
  "opportunity_ids rs = Inr ids \<Longrightarrow> i \<in> set ids \<Longrightarrow>
   \<exists>r \<in> set rs. ref_group r = Some ''load-opportunities'' \<and> ref_id r = Some i"
  by (induction rs arbitrary: ids) (auto split: if_splits option.splits sum.splits)

lemma opportunity_ids_total:
  "\<forall>r \<in> set rs. ref_id r \<noteq> None \<Longrightarrow> \<exists>ids. opportunity_ids rs = Inr ids"
  by (induction rs) (auto split: option.splits sum.splits)

lemma parse_opportunities_total:
  "\<forall>r \<in> set (perf_audits_of lr). ref_id r \<noteq> None \<Longrightarrow> \<exists>opps. parse_opportunities lr = Inr opps"
  using opportunity_ids_total [of "perf_audits_of lr"]
  by (auto simp: parse_opportunities_def)

lemma opp_id_make_opportunity: "opp_id (make_opportunity i a) = i"
  by (simp add: make_opportunity_def Let_def)

lemma collect_opportunities_sound:
  "x \<in> set (collect_opportunities ids as) \<Longrightarrow>
   \<exists>a s. (opp_id x, a) \<in> set as \<and> opp_id x \<in> set ids \<and> score a = Some s \<and> s < 9 / 10
     \<and> x = make_opportunity (opp_id x) a"
proof (induction ids as rule: collect_opportunities.induct)
  case (1 ids)
  then show ?case by simp
next
  case (2 ids audit_id a rest)
  show ?case
  proof (cases "x \<in> set (collect_opportunities ids rest)")
    case True
    have "\<exists>a s. (opp_id x, a) \<in> set rest \<and> opp_id x \<in> set ids \<and> score a = Some s \<and> s < 9 / 10
            \<and> x = make_opportunity (opp_id x) a"
      using 2 True by (auto split: if_splits option.splits)
    then show ?thesis by auto
  next
    case False
    with "2.prems" obtain s where "audit_id \<in> set ids" "score a = Some s" "s < 9 / 10"
      "x = make_opportunity audit_id a"
      by (auto split: if_splits option.splits)
    then show ?thesis
      by (auto simp: opp_id_make_opportunity)
  qed
qed

lemma collect_opportunities_order:
  "subseq (map opp_id (collect_opportunities ids as)) (map fst as)"
  by (induction ids as rule: collect_opportunities.induct)
     (auto simp: opp_id_make_opportunity split: option.splits)

lemma opportunity_ids_set:
  "opportunity_ids rs = Inr ids \<Longrightarrow>
   (i \<in> set ids) = (\<exists>r \<in> set rs. ref_group r = Some ''load-opportunities'' \<and> ref_id r = Some i)"
  by (induction rs arbitrary: ids) (auto split: if_splits option.splits sum.splits)

lemma collect_opportunities_filter:
  assumes "\<And>i. (i \<in> set ids) = Q i"
  shows "collect_opportunities ids as =
     map (\<lambda>p. make_opportunity (fst p) (snd p))
       (filter (\<lambda>p. Q (fst p) \<and> (case score (snd p) of None \<Rightarrow> False | Some s \<Rightarrow> s < 9 / 10)) as)"
proof (induction as)
  case Nil
  then show ?case by simp
next
  case (Cons p as)
  obtain i a where p: "p = (i, a)" by (cases p)
  show ?case
    unfolding p using Cons assms [of i]
    by (cases "score a") (auto simp: not_le)
qed

lemma parse_opportunities_eq:
  assumes "parse_opportunities lr = Inr opps"
  shows "opps = sort_reverse savings_key (candidates lr)"
proof -
  from assms obtain ids where ids: "opportunity_ids (perf_audits_of lr) = Inr ids"
    and opps: "opps = sort_reverse savings_key (collect_opportunities ids (audits_of lr))"
    by (auto simp: parse_opportunities_def split: sum.splits)
  have "(i \<in> set ids) = in_load_opportunities lr i" for i
    unfolding in_load_opportunities_def using ids by (rule opportunity_ids_set)
  then have "collect_opportunities ids (audits_of lr) = candidates lr"
    unfolding qualifies_def candidates_def by (rule collect_opportunities_filter)
  with opps show ?thesis by simp
qed

text \<open>
  C3: whenever the lab normalizer produces an opportunities list, every entry in it is
  built from an audit of the document that the performance category lists in the
  load-opportunity group and whose score is present and below 0.9; the list is sorted
  descending by \<open>savings_ms\<close> (a missing value counting as 0); and the entries with
  equal savings stand in the provider's order of the audits: for each amount of savings
  they are the opportunities of the qualifying audits with that amount, in that order.
\<close>

theorem opportunities_filtered_sorted:
  assumes "parse_opportunities lr = Inr opps"
  shows "(\<forall>x \<in> set opps. in_load_opportunities lr (opp_id x) \<and>
           (\<exists>a s. (opp_id x, a) \<in> set (audits_of lr) \<and> score a = Some s \<and> s < 9 / 10
              \<and> x = make_opportunity (opp_id x) a))
       \<and> sorted_wrt (\<lambda>x y. savings_key y \<le> savings_key x) opps
       \<and> (\<forall>k. subseq (map opp_id (filter (\<lambda>x. savings_key x = k) opps))
                      (map fst (audits_of lr)))
       \<and> (\<forall>k. filter (\<lambda>x. savings_key x = k) opps
                = filter (\<lambda>x. savings_key x = k) (candidates lr))"
proof -
  have stable: "filter (\<lambda>x. savings_key x = k) opps
      = filter (\<lambda>x. savings_key x = k) (candidates lr)" for k
    unfolding parse_opportunities_eq [OF assms] by (rule sort_reverse_stable)
  from assms obtain ids where ids: "opportunity_ids (perf_audits_of lr) = Inr ids"
    and opps: "opps = sort_reverse savings_key (collect_opportunities ids (audits_of lr))"
    by (auto simp: parse_opportunities_def split: sum.splits)
  have sound: "in_load_opportunities lr (opp_id x) \<and>
           (\<exists>a s. (opp_id x, a) \<in> set (audits_of lr) \<and> score a = Some s \<and> s < 9 / 10
              \<and> x = make_opportunity (opp_id x) a)" if "x \<in> set opps" for x
  proof -
    from that have "x \<in> set (collect_opportunities ids (audits_of lr))"
      by (simp add: opps set_sort_reverse)
    from collect_opportunities_sound [OF this] opportunity_ids_sound [OF ids]
    show ?thesis unfolding in_load_opportunities_def by blast
  qed
  have order: "subseq (map opp_id (filter (\<lambda>x. savings_key x = k) opps))
      (map fst (audits_of lr))" for k
  proof -
    have "subseq (map opp_id (filter (\<lambda>x. savings_key x = k)
              (collect_opportunities ids (audits_of lr))))
            (map opp_id (collect_opportunities ids (audits_of lr)))"
      by (simp add: subseq_map)
    then show ?thesis
      unfolding opps sort_reverse_stable
      using collect_opportunities_order subseq_order.order_trans by blast
  qed
  have desc: "sorted_wrt (\<lambda>x y. savings_key y \<le> savings_key x) opps"
    unfolding opps by (rule sort_reverse_descending)
  from sound order stable desc show ?thesis by blast
qed

text \<open>
  Witness for C3: on the sample document the normalizer returns three opportunities.
  The passing audit \<open>b\<close> is dropped, \<open>c\<close> (300 ms) comes first, and \<open>a\<close> and \<open>d\<close>
  (100 ms each) keep the provider's order.
\<close>

theorem opportunities_filtered_sorted_witness:
  "parse_opportunities sample_lighthouse_result =
     Inr [make_opportunity ''c'' (sample_audit (3 / 10) 300),
          make_opportunity ''a'' (sample_audit (1 / 2) 100),
          make_opportunity ''d'' (sample_audit 0 100)]
   \<and> in_load_opportunities sample_lighthouse_result ''c''
   \<and> subseq [''a'', ''d''] (map fst (audits_of sample_lighthouse_result))"
proof -
  let ?opps = "[make_opportunity ''c'' (sample_audit (3 / 10) 300),
          make_opportunity ''a'' (sample_audit (1 / 2) 100),
          make_opportunity ''d'' (sample_audit 0 100)]"
  have e: "parse_opportunities sample_lighthouse_result = Inr ?opps"
    by (simp add: parse_opportunities_def sample_lighthouse_result_def perf_audits_of_def
        audits_of_def sample_ref_def sample_audit_def sort_reverse_def savings_key_def
        make_opportunity_def round_half_even_def)
  have k: "map opp_id (filter (\<lambda>x. savings_key x = 100) ?opps) = [''a'', ''d'']"
    by (simp add: savings_key_def make_opportunity_def sample_audit_def round_half_even_def)
  note t = opportunities_filtered_sorted [OF e]
  from t have m: "\<forall>x \<in> set ?opps. in_load_opportunities sample_lighthouse_result (opp_id x)"
    by blast
  from t have s: "\<forall>k. subseq (map opp_id (filter (\<lambda>x. savings_key x = k) ?opps))
      (map fst (audits_of sample_lighthouse_result))"
    by blast
  from m have "in_load_opportunities sample_lighthouse_result
      (opp_id (make_opportunity ''c'' (sample_audit (3 / 10) 300)))"
    by simp
  moreover from s have "subseq (map opp_id (filter (\<lambda>x. savings_key x = 100) ?opps))
      (map fst (audits_of sample_lighthouse_result))"
    by blast
  ultimately show ?thesis
    using e unfolding k by (simp add: opp_id_make_opportunity)
qed

subsection \<open>Largest resources\<close>

lemma descending_filter_takeWhile:
  fixes f :: "'a \<Rightarrow> int"
  shows "sorted_wrt (\<lambda>x y. f y \<le> f x) xs \<Longrightarrow>
    filter (\<lambda>r. 0 < f r) xs = takeWhile (\<lambda>r. 0 < f r) xs"
proof (induction xs)
  case Nil
  then show ?case by simp
next
  case (Cons x xs)
  show ?case
  proof (cases "0 < f x")
    case True
    with Cons show ?thesis by simp
  next
    case False
    with Cons.prems have "\<forall>y \<in> set xs. \<not> 0 < f y" by fastforce
    then have "filter (\<lambda>r. 0 < f r) xs = []" by (simp add: filter_empty_conv)
    with False show ?thesis by simp
  qed
qed

lemma take_takeWhile_commute: "take n (takeWhile P xs) = takeWhile P (take n xs)"
proof (induction xs arbitrary: n)
  case Nil
  then show ?case by simp
next
  case (Cons x xs)
  then show ?case by (cases n) simp_all
qed

lemma descending_take: "sorted_wrt R xs \<Longrightarrow> sorted_wrt R (take n xs)"
  using sorted_wrt_append [of R "take n xs" "drop n xs"] by simp

lemma largest_records_takeWhile:
  "largest_records reqs =
     takeWhile (\<lambda>r. 0 < size_bytes r) (take 10 (sort_reverse size_bytes reqs))"
  unfolding largest_records_def
  by (rule descending_filter_takeWhile [OF descending_take [OF sort_reverse_descending]])

lemma largest_records_eq:
  "largest_records reqs = take 10 (filter (\<lambda>r. 0 < size_bytes r) (sort_reverse size_bytes reqs))"
  by (simp add: largest_records_takeWhile descending_filter_takeWhile [OF sort_reverse_descending]
      take_takeWhile_commute)

lemma largest_records_prefix: "prefix (largest_records reqs) (sort_reverse size_bytes reqs)"
proof -
  let ?s = "sort_reverse size_bytes reqs"
  have "prefix (takeWhile (\<lambda>r. 0 < size_bytes r) (take 10 ?s)) (take 10 ?s)"
    by (rule takeWhile_is_prefix)
  moreover have "prefix (take 10 ?s) ?s" by (rule take_is_prefix)
  ultimately show ?thesis
    unfolding largest_records_takeWhile by (metis prefix_order.order_trans)
qed

text \<open>
  C4: for every list of request records, the records kept for \<open>largest_resources\<close> are at
  most 10, each has a positive size, they form a prefix of the records sorted descending
  by size, and they are the first 10 of the sorted records without the zero-size ones.
  The same bounds hold for the list the capture returns for any events.
\<close>

theorem largest_resources_top_ten:
  "length (largest_records reqs) \<le> 10
   \<and> (\<forall>r \<in> set (largest_records reqs). 0 < size_bytes r)
   \<and> prefix (largest_records reqs) (sort_reverse size_bytes reqs)
   \<and> largest_records reqs = take 10 (filter (\<lambda>r. 0 < size_bytes r) (sort_reverse size_bytes reqs))
   \<and> largest_resources (summarize reqs) = map make_largest_entry (largest_records reqs)
   \<and> length (largest_resources (capture_network py_int events resource_timing)) \<le> 10
   \<and> (\<forall>e \<in> set (largest_resources (capture_network py_int events resource_timing)).
         0 < le_size_bytes e)"
proof -
  let ?net = "capture_network py_int events resource_timing"
  let ?reqs = "map snd (final_request_map py_int events resource_timing)"
  have c1: "length (largest_records reqs) \<le> 10"
    by (simp add: largest_records_eq)
  have c2: "\<forall>r \<in> set (largest_records reqs). 0 < size_bytes r"
    by (simp add: largest_records_def)
  have c3: "prefix (largest_records reqs) (sort_reverse size_bytes reqs)"
    by (rule largest_records_prefix)
  have c4: "largest_records reqs =
      take 10 (filter (\<lambda>r. 0 < size_bytes r) (sort_reverse size_bytes reqs))"
    by (rule largest_records_eq)
  have c5: "largest_resources (summarize reqs) = map make_largest_entry (largest_records reqs)"
    by (simp add: summarize_def Let_def)
  have net: "largest_resources ?net = map make_largest_entry (largest_records ?reqs)"
    by (simp add: capture_network_def summarize_def Let_def)
  have c6: "length (largest_resources ?net) \<le> 10"
    unfolding net by (simp add: largest_records_eq)
  have c7: "\<forall>e \<in> set (largest_resources ?net). 0 < le_size_bytes e"
    unfolding net by (simp add: largest_records_def make_largest_entry_def)
  show ?thesis
    by (intro conjI; fact)
qed

text \<open>
  Witness for C4: of three records of sizes 0, 7 and 3 the two of positive size are kept,
  largest first; a capture of two requests, one with a 7-byte response, keeps that one.
\<close>

theorem largest_resources_top_ten_witness:
  "largest_records [sample_request ''a'' 0, sample_request ''b'' 7, sample_request ''c'' 3]
     = [sample_request ''b'' 7, sample_request ''c'' 3]
   \<and> 0 < size_bytes (sample_request ''b'' 7) \<and> 0 < size_bytes (sample_request ''c'' 3)
   \<and> map le_size_bytes (largest_resources (capture_network (\<lambda>s. Some 7)
        [Request ''u'' ''script'', Response ''u'' 200 False (Some ''7''),
         Request ''v'' ''image''] [])) = [7]"
proof -
  let ?reqs = "[sample_request ''a'' 0, sample_request ''b'' 7, sample_request ''c'' 3]"
  let ?events = "[Request ''u'' ''script'', Response ''u'' 200 False (Some ''7''),
         Request ''v'' ''image'']"
  have l: "largest_records ?reqs = [sample_request ''b'' 7, sample_request ''c'' 3]"
    by (simp add: largest_records_def sort_reverse_def sample_request_def)
  have n: "map le_size_bytes (largest_resources (capture_network (\<lambda>s. Some 7) ?events [])) = [7]"
    by (simp add: capture_network_def summarize_def final_request_map_def on_request_def
        on_response_def get_resource_type_def type_map_def largest_records_def sort_reverse_def
        make_largest_entry_def Let_def)
  from largest_resources_top_ten [of ?reqs "\<lambda>s. Some 7" ?events "[]"]
  have "\<forall>r \<in> set (largest_records ?reqs). 0 < size_bytes r" by blast
  then show ?thesis
    using n unfolding l by simp
qed

subsection \<open>Deduplication and totals\<close>



















subsection \<open>Histogram\<close>






subsection \<open>Sequencing and loops\<close>

lemma py_bind_Inr [simp]: "py_bind (Inr x) f = f x"
  by (simp add: py_bind_def)

lemma py_bind_Inl [simp]: "py_bind (Inl e) f = Inl e"
  by (simp add: py_bind_def)

lemma py_bindE:
  assumes "py_bind r f = Inr y"
  obtains x where "r = Inr x" "f x = Inr y"
  using assms by (cases r) simp_all

lemma py_mapM_total: "(\<And>x. x \<in> set xs \<Longrightarrow> f x = Inr (g x)) \<Longrightarrow> py_mapM f xs = Inr (map g xs)"
  by (induction xs) simp_all



lemma py_mapM_map: "py_mapM f (map g xs) = py_mapM (\<lambda>x. f (g x)) xs"
  by (induction xs) simp_all

lemma py_mapM_cong: "(\<And>x. x \<in> set xs \<Longrightarrow> f x = g x) \<Longrightarrow> py_mapM f xs = py_mapM g xs"
  by (induction xs) simp_all

subsection \<open>Fields by path\<close>

lemma field_at_nil: "field_at v [] d = v"
  by (simp add: field_at_def)

lemma field_at_key:
  "field_at (JObj kvs) [k] d = (case map_of kvs k of None \<Rightarrow> d | Some w \<Rightarrow> w)"
  by (simp add: field_at_def split: option.splits)


lemma lookup_append:
  "lookup v (p @ q) = (case lookup v p of None \<Rightarrow> None | Some w \<Rightarrow> lookup w q)"
  by (induction v p rule: lookup.induct) (auto split: option.splits)

lemma field_at_nested:
  "field_at (field_at v p (JObj [])) (k # q) d = field_at v (p @ k # q) d"
  by (cases "lookup v p") (simp_all add: field_at_def lookup_append)

lemma is_objE:
  assumes "is_obj v"
  obtains kvs where "v = JObj kvs"
  using assms by (cases v) (simp_all add: is_obj_def)

lemma obj_withE:
  assumes "obj_with Q v"
  obtains kvs where "v = JObj kvs" "Q kvs"
  using assms by (cases v) (simp_all add: obj_with_def)

lemma obj_with_obj: "obj_with Q v \<Longrightarrow> is_obj v"
  by (cases v) (simp_all add: obj_with_def is_obj_def)

lemma is_obj_empty: "is_obj (JObj [])"
  by (simp add: is_obj_def)

lemma py_get_root: "is_obj v \<Longrightarrow> py_get v k d = Inr (field_at v [k] d)"
  by (erule is_objE) (simp add: field_at_key)

lemma py_get_at:
  assumes "is_obj (field_at v p (JObj []))"
  shows "py_get (field_at v p (JObj [])) k d = Inr (field_at v (p @ [k]) d)"
  using py_get_root [OF assms, of k d] by (simp add: field_at_nested)

lemma opt_field_at: "opt kvs k P \<Longrightarrow> P d \<Longrightarrow> P (field_at (JObj kvs) [k] d)"
  by (cases "map_of kvs k") (simp_all add: field_at_key opt_def)

subsection \<open>Shapes of the parts of a document\<close>


lemma wf_strategies_empty: "wf_strategies (JObj [])"
  by (simp add: wf_strategies_def obj_with_def)

lemma wf_cwv_empty: "wf_cwv (JObj [])"
  by (simp add: wf_cwv_def obj_with_def opt_def)

lemma wf_psi_obj: "wf_psi psi \<Longrightarrow> is_obj psi"
  unfolding wf_psi_def by (rule obj_with_obj)

lemma wf_strategy_obj: "wf_strategy sd \<Longrightarrow> is_obj sd"
  unfolding wf_strategy_def by (rule obj_with_obj)


lemma wf_cwv_obj: "wf_cwv c \<Longrightarrow> is_obj c"
  unfolding wf_cwv_def by (rule obj_with_obj)


lemma wf_psi_strategies: "wf_psi psi \<Longrightarrow> wf_strategies (field_at psi [''strategies''] (JObj []))"
  unfolding wf_psi_def
  by (erule obj_withE) (simp add: opt_field_at wf_strategies_empty)

lemma wf_strategies_items:
  assumes "wf_strategies s" and "s = JObj items" and "p \<in> set items"
  shows "wf_strategy (snd p)"
  using assms by (auto simp: wf_strategies_def obj_with_def list_all_iff)


lemma wf_strategyE:
  assumes "wf_strategy sd"
  obtains kvs where "sd = JObj kvs" "opt kvs ''core_web_vitals'' wf_cwv"
    "opt kvs ''field_metrics'' wf_field" "opt kvs ''opportunities'' (arr_of wf_opp)"
  using assms unfolding wf_strategy_def by (auto elim: obj_withE)

lemma wf_strategy_cwv:
  assumes "wf_strategy sd"
  shows "wf_cwv (field_at sd [''core_web_vitals''] (JObj []))"
proof -
  from assms obtain kvs where sd: "sd = JObj kvs" and o: "opt kvs ''core_web_vitals'' wf_cwv"
    by (rule wf_strategyE)
  show ?thesis unfolding sd using o wf_cwv_empty by (rule opt_field_at)
qed


lemma wf_strategy_field:
  assumes "wf_strategy sd"
  shows "wf_field (field_at sd [''field_metrics''] (JObj []))"
proof -
  from assms obtain kvs where sd: "sd = JObj kvs" and o: "opt kvs ''field_metrics'' wf_field"
    by (rule wf_strategyE)
  have e: "wf_field (JObj [])" by (simp add: wf_field_def is_obj_def)
  show ?thesis unfolding sd using o e by (rule opt_field_at)
qed

lemma wf_cwv_metric:
  assumes "wf_cwv c" and "k \<in> set [''lcp'', ''inp'', ''cls'', ''fcp'', ''ttfb'', ''tbt'']"
  shows "is_obj (field_at c [k] (JObj []))"
proof -
  from assms(1) obtain kvs where c: "c = JObj kvs"
    and all: "list_all (\<lambda>k. opt kvs k is_obj) [''lcp'', ''inp'', ''cls'', ''fcp'', ''ttfb'', ''tbt'']"
    unfolding wf_cwv_def by (auto elim: obj_withE)
  from all assms(2) have "opt kvs k is_obj" unfolding list_all_iff by blast
  then show ?thesis unfolding c by (rule opt_field_at) (rule is_obj_empty)
qed

subsection \<open>Summary sheet\<close>




subsection \<open>Core Web Vitals sheet\<close>

lemma format_metric_obj:
  "format_metric fmt (JObj kvs) =
     Inr (let v = field_at (JObj kvs) [''value''] (JStr [])
          in if v = JStr [] then []
             else py_str fmt v @ py_str fmt (field_at (JObj kvs) [''unit''] (JStr [])))"
  by (cases kvs) (simp_all add: format_metric_def field_at_key Let_def)

lemma metric_cell_at:
  assumes "is_obj (field_at sd [''core_web_vitals'', kind] (JObj []))"
  shows "metric_cell fmt (field_at sd [''core_web_vitals'', kind] (JObj []))
     = Inr (JStr (metric_text fmt sd kind))"
proof -
  from assms obtain kvs where m: "field_at sd [''core_web_vitals'', kind] (JObj []) = JObj kvs"
    by (rule is_objE)
  have "field_at (JObj kvs) [k] d = field_at sd [''core_web_vitals'', kind, k] d" for k d
    using field_at_nested [of sd "[''core_web_vitals'', kind]" k "[]" d] by (simp add: m)
  then show ?thesis
    by (simp add: metric_cell_def m format_metric_obj metric_text_def Let_def)
qed

lemma field_value_obj:
  "field_value (JObj kvs) key =
     (case lookup (field_at (JObj kvs) [''field_metrics''] (JObj [])) [key] of
        None \<Rightarrow> None
      | Some v \<Rightarrow> if v = JNull then None else Some v)"
  by (simp add: field_value_def field_at_key split: option.splits)

lemma format_field_metric_sound:
  assumes "format_field_metric fmt (if truthy f0 then f0 else JObj []) key u = Inr t"
  shows "t = (case (case lookup f0 [key] of None \<Rightarrow> None
                    | Some v \<Rightarrow> if v = JNull then None else Some v) of
                None \<Rightarrow> ''N/A'' | Some v \<Rightarrow> py_str fmt v @ u)"
  using assms
  by (cases f0) (auto simp: format_field_metric_def split: if_splits option.splits)

lemma format_field_metric_total:
  assumes "wf_field f0"
  shows "\<exists>t. format_field_metric fmt (if truthy f0 then f0 else JObj []) key u = Inr t"
  using assms
  by (cases f0) (auto simp: format_field_metric_def wf_field_def is_obj_def split: option.splits)

lemma field_cell_sound:
  assumes "is_obj sd"
    and "field_cell fmt (let f0 = field_at sd [''field_metrics''] (JObj [])
                         in if truthy f0 then f0 else JObj []) key u = Inr c"
  shows "c = JStr (field_text fmt sd key u)"
proof -
  from assms(1) obtain kvs where sd: "sd = JObj kvs" by (rule is_objE)
  from assms(2) obtain t where
    t: "format_field_metric fmt (let f0 = field_at sd [''field_metrics''] (JObj [])
          in if truthy f0 then f0 else JObj []) key u = Inr t" and c: "c = JStr t"
    unfolding field_cell_def by (auto elim: py_bindE)
  from t have "t = field_text fmt sd key u"
    unfolding Let_def field_text_def sd field_value_obj
    by (rule format_field_metric_sound)
  with c show ?thesis by simp
qed

lemma field_cell_wf:
  assumes "is_obj sd" and "wf_field (field_at sd [''field_metrics''] (JObj []))"
  shows "field_cell fmt (let f0 = field_at sd [''field_metrics''] (JObj [])
                         in if truthy f0 then f0 else JObj []) key u
     = Inr (JStr (field_text fmt sd key u))"
proof -
  from format_field_metric_total [OF assms(2), of fmt key u]
  obtain t where "format_field_metric fmt
      (if truthy (field_at sd [''field_metrics''] (JObj []))
       then field_at sd [''field_metrics''] (JObj []) else JObj []) key u = Inr t" ..
  then have c: "field_cell fmt (let f0 = field_at sd [''field_metrics''] (JObj [])
                         in if truthy f0 then f0 else JObj []) key u = Inr (JStr t)"
    by (simp add: field_cell_def Let_def)
  from field_cell_sound [OF assms(1) c] c show ?thesis by simp
qed

lemma cwv_row_cells:
  assumes "wf_strategy sd"
  shows "cwv_row fmt page_url strategy_name sd = Inr (cwv_cells fmt page_url strategy_name sd)"
proof -
  have o0: "is_obj sd" using assms by (rule wf_strategy_obj)
  have w1: "wf_cwv (field_at sd [''core_web_vitals''] (JObj []))"
    using assms by (rule wf_strategy_cwv)
  have o1: "is_obj (field_at sd [''core_web_vitals''] (JObj []))"
    using w1 by (rule wf_cwv_obj)
  have o2: "is_obj (field_at sd [''core_web_vitals'', k] (JObj []))"
    if "k \<in> set [''lcp'', ''inp'', ''cls'', ''fcp'', ''ttfb'', ''tbt'']" for k
    using wf_cwv_metric [OF w1 that] by (simp add: field_at_nested)
  have m: "metric_cell fmt (field_at sd [''core_web_vitals'', k] (JObj []))
      = Inr (JStr (metric_text fmt sd k))"
    if "k \<in> set [''lcp'', ''inp'', ''cls'', ''fcp'', ''ttfb'', ''tbt'']" for k
    using o2 [OF that] by (rule metric_cell_at)
  have f: "field_cell fmt (if truthy (field_at sd [''field_metrics''] (JObj []))
       then field_at sd [''field_metrics''] (JObj []) else JObj []) key u
     = Inr (JStr (field_text fmt sd key u))" for key u
    using field_cell_wf [OF o0 wf_strategy_field [OF assms], of fmt key u]
    by (simp add: Let_def)
  show ?thesis
    unfolding cwv_row_def cwv_cells_def
    using py_get_at [OF o1]
    by (simp add: py_get_root [OF o0] Let_def m f)
qed

subsection \<open>Opportunities sheet\<close>









lemma arr_ofE:
  assumes "arr_of P v"
  obtains xs where "v = JArr xs" "\<forall>x \<in> set xs. P x"
  using assms by (cases v) (simp_all add: arr_of_def list_all_iff)


subsection \<open>Network analysis sheet\<close>










lemma wf_resource_obj: "wf_resource r \<Longrightarrow> is_obj r"
  unfolding wf_resource_def by (rule obj_with_obj)




lemma lookup_key: "lookup (JObj kvs) [k] = map_of kvs k"
  by (simp split: option.splits)








subsection \<open>Whole sheets on documents with fields missing\<close>

lemma wf_dataE:
  assumes "wf_data data"
  obtains kvs where "data = JObj kvs" "opt kvs ''psi_results'' (arr_of wf_psi)"
    "opt kvs ''network_results'' (arr_of wf_network)"
  using assms unfolding wf_data_def by (auto elim: obj_withE)

lemma wf_data_obj: "wf_data data \<Longrightarrow> is_obj data"
  unfolding wf_data_def by (rule obj_with_obj)

lemma wf_data_psi:
  assumes "wf_data data"
  shows "arr_of wf_psi (field_at data [''psi_results''] (JArr []))"
proof -
  from assms obtain kvs where d: "data = JObj kvs" and o: "opt kvs ''psi_results'' (arr_of wf_psi)"
    by (rule wf_dataE)
  have e: "arr_of wf_psi (JArr [])" by (simp add: arr_of_def)
  show ?thesis unfolding d using o e by (rule opt_field_at)
qed


lemma arr_of_entries:
  assumes "arr_of P (field_at data [k] (JArr []))"
  shows "field_at data [k] (JArr []) = JArr (entries data k)" and "\<forall>x \<in> set (entries data k). P x"
  using assms by (auto elim!: arr_ofE simp: entries_def)

lemma psi_results_of_wf:
  assumes "wf_data data"
  shows "psi_results_of data = Inr (entries data ''psi_results'')"
  by (simp add: psi_results_of_def py_get_root [OF wf_data_obj [OF assms]]
      arr_of_entries(1) [OF wf_data_psi [OF assms]])

lemma wf_psi_entries: "wf_data data \<Longrightarrow> psi \<in> set (entries data ''psi_results'') \<Longrightarrow> wf_psi psi"
  using arr_of_entries(2) [OF wf_data_psi] by blast


lemma strategy_items_wf:
  assumes "wf_psi psi"
  shows "py_items (field_at psi [''strategies''] (JObj [])) = Inr (strategy_items psi)"
    and "\<forall>p \<in> set (strategy_items psi). wf_strategy (snd p)"
proof -
  from wf_psi_strategies [OF assms] obtain items
    where s: "field_at psi [''strategies''] (JObj []) = JObj items"
    unfolding wf_strategies_def by (auto elim: obj_withE)
  show "py_items (field_at psi [''strategies''] (JObj [])) = Inr (strategy_items psi)"
    by (simp add: s strategy_items_def)
  show "\<forall>p \<in> set (strategy_items psi). wf_strategy (snd p)"
    using wf_strategies_items [OF wf_psi_strategies [OF assms] s]
    by (simp add: strategy_items_def s)
qed

lemma cwv_rows_of_wf:
  assumes "wf_psi psi"
  shows "cwv_rows_of fmt psi = Inr (cwv_sheet_rows fmt psi)"
proof -
  have "py_mapM (\<lambda>p. cwv_row fmt (field_at psi [''url''] (JStr [])) (fst p) (snd p))
          (strategy_items psi)
      = Inr (map (\<lambda>p. cwv_cells fmt (field_at psi [''url''] (JStr [])) (fst p) (snd p))
          (strategy_items psi))"
    by (rule py_mapM_total) (simp add: cwv_row_cells strategy_items_wf(2) [OF assms])
  then show ?thesis
    by (simp add: cwv_rows_of_def cwv_sheet_rows_def py_get_root [OF wf_psi_obj [OF assms]]
        strategy_items_wf(1) [OF assms])
qed



lemma cwv_sheet_wf:
  assumes "wf_data data"
  shows "create_core_web_vitals_sheet fmt data
     = Inr (concat (map (cwv_sheet_rows fmt) (entries data ''psi_results'')))"
proof -
  have "py_mapM (cwv_rows_of fmt) (entries data ''psi_results'')
      = Inr (map (cwv_sheet_rows fmt) (entries data ''psi_results''))"
    by (rule py_mapM_total) (simp add: cwv_rows_of_wf wf_psi_entries [OF assms])
  then show ?thesis
    by (simp add: create_core_web_vitals_sheet_def psi_results_of_wf [OF assms])
qed





subsection \<open>Field cells of any row that is built\<close>

lemma py_get_Inr_obj: "py_get v k d = Inr w \<Longrightarrow> is_obj v"
  by (cases v) (simp_all add: is_obj_def)



lemma cwv_row_obj:
  assumes "cwv_row fmt u n sd = Inr row"
  shows "is_obj sd"
proof -
  from assms obtain cwv where "py_get sd ''core_web_vitals'' (JObj []) = Inr cwv"
    unfolding cwv_row_def by (rule py_bindE)
  then show ?thesis by (rule py_get_Inr_obj)
qed

lemma cwv_row_field_cells:
  assumes "cwv_row fmt u n sd = Inr row"
  shows "length row = 12
    \<and> row ! 4 = JStr (field_text fmt sd ''lcp_p75'' ''s'')
    \<and> row ! 6 = JStr (field_text fmt sd ''inp_p75'' ''ms'')
    \<and> row ! 8 = JStr (field_text fmt sd ''cls_p75'' [])"
proof -
  let ?f = "let f0 = field_at sd [''field_metrics''] (JObj []) in if truthy f0 then f0 else JObj []"
  have o: "is_obj sd" using assms by (rule cwv_row_obj)
  from assms obtain c1 c2 c3 c4 c5 c6 c7 c8 c9 c10 c11 c12
    where row: "row = [c1, c2, c3, c4, c5, c6, c7, c8, c9, c10, c11, c12]"
      and c5: "field_cell fmt ?f ''lcp_p75'' ''s'' = Inr c5"
      and c7: "field_cell fmt ?f ''inp_p75'' ''ms'' = Inr c7"
      and c9: "field_cell fmt ?f ''cls_p75'' [] = Inr c9"
    unfolding cwv_row_def Let_def py_get_root [OF o]
    by (auto elim!: py_bindE)
  show ?thesis
    using field_cell_sound [OF o c5] field_cell_sound [OF o c7] field_cell_sound [OF o c9]
    by (simp add: row)
qed






subsection \<open>Erasing the origin field metrics\<close>

lemma py_bind_map_sum: "py_bind (map_sum id g r) f = py_bind r (\<lambda>x. f (g x))"
  by (cases r) simp_all

lemma map_of_map_key:
  "map_of (map_key k f kvs) k' = (if k' = k then map_option f (map_of kvs k') else map_of kvs k')"
  by (induction kvs) (auto simp: map_key_def)

lemma map_of_erased:
  "k \<noteq> ''origin_field_metrics'' \<Longrightarrow>
   map_of (filter (\<lambda>p. fst p \<noteq> ''origin_field_metrics'') kvs) k = map_of kvs k"
  by (induction kvs) auto

lemma py_get_erase_strategy:
  "k \<noteq> ''origin_field_metrics'' \<Longrightarrow> py_get (erase_strategy sd) k d = py_get sd k d"
  by (cases sd) (simp_all add: erase_strategy_def map_of_erased)

lemma erase_strategy_empty: "erase_strategy (JObj []) = JObj []"
  by (simp add: erase_strategy_def)

lemma cwv_row_erase: "cwv_row fmt u n (erase_strategy sd) = cwv_row fmt u n sd"
  unfolding cwv_row_def by (simp add: py_get_erase_strategy)

lemma strategy_opportunity_rows_erase:
  "strategy_opportunity_rows fmt u n (erase_strategy sd) = strategy_opportunity_rows fmt u n sd"
  unfolding strategy_opportunity_rows_def by (simp add: py_get_erase_strategy)

lemma map_of_erase_items:
  "map_of (map (\<lambda>p. (fst p, erase_strategy (snd p))) items) k
     = map_option erase_strategy (map_of items k)"
  by (induction items) auto

lemma py_get_erase_strategies:
  "py_get (erase_strategies s) k (JObj []) = map_sum id erase_strategy (py_get s k (JObj []))"
  by (cases s) (simp_all add: erase_strategies_def map_of_erase_items erase_strategy_empty
      split: option.splits)

lemma py_items_erase_strategies:
  "py_items (erase_strategies s)
     = map_sum id (map (\<lambda>p. (fst p, erase_strategy (snd p)))) (py_items s)"
  by (cases s) (simp_all add: erase_strategies_def)

lemma erase_strategies_empty: "erase_strategies (JObj []) = JObj []"
  by (simp add: erase_strategies_def)

lemma py_get_erase_psi_strategies:
  "py_get (erase_psi psi) ''strategies'' (JObj [])
     = map_sum id erase_strategies (py_get psi ''strategies'' (JObj []))"
  by (cases psi) (simp_all add: erase_psi_def map_of_map_key erase_strategies_empty
      split: option.splits)

lemma py_get_erase_psi_other:
  "k \<noteq> ''strategies'' \<Longrightarrow> py_get (erase_psi psi) k d = py_get psi k d"
  by (cases psi) (simp_all add: erase_psi_def map_of_map_key)

lemma cwv_rows_of_erase: "cwv_rows_of fmt (erase_psi psi) = cwv_rows_of fmt psi"
  unfolding cwv_rows_of_def
  by (simp add: py_get_erase_psi_other py_get_erase_psi_strategies py_bind_map_sum
      py_items_erase_strategies py_mapM_map cwv_row_erase)

lemma opportunity_rows_of_erase:
  "opportunity_rows_of fmt (erase_psi psi) = opportunity_rows_of fmt psi"
  unfolding opportunity_rows_of_def
  by (simp add: py_get_erase_psi_other py_get_erase_psi_strategies py_bind_map_sum
      py_items_erase_strategies py_mapM_map strategy_opportunity_rows_erase)

lemma summary_row_erase: "summary_row fmt (erase_psi psi) = summary_row fmt psi"
  unfolding summary_row_def
  by (simp add: py_get_erase_psi_other py_get_erase_psi_strategies py_bind_map_sum
      py_get_erase_strategies py_get_erase_strategy)

lemma erase_psi_string: "erase_psi (JStr s) = JStr s"
  by (simp add: erase_psi_def)

lemma py_iter_erase_results:
  "py_iter (erase_results r) = map_sum id (map erase_psi) (py_iter r)"
  by (cases r) (simp_all add: erase_results_def erase_psi_string)

lemma erase_results_empty: "erase_results (JArr []) = JArr []"
  by (simp add: erase_results_def)

lemma psi_results_of_erase:
  "psi_results_of (erase_origin data) = map_sum id (map erase_psi) (psi_results_of data)"
  by (cases data)
     (simp_all add: psi_results_of_def erase_origin_def map_of_map_key py_iter_erase_results
      erase_results_empty split: option.splits)

lemma py_get_erase_origin_other:
  "k \<noteq> ''psi_results'' \<Longrightarrow> py_get (erase_origin data) k d = py_get data k d"
  by (cases data) (simp_all add: erase_origin_def map_of_map_key)

lemma sheets_erase:
  "create_summary_sheet fmt (erase_origin data) = create_summary_sheet fmt data"
  "create_core_web_vitals_sheet fmt (erase_origin data) = create_core_web_vitals_sheet fmt data"
  "create_network_analysis_sheet fmt (erase_origin data) = create_network_analysis_sheet fmt data"
  "create_opportunities_sheet fmt (erase_origin data) = create_opportunities_sheet fmt data"
  by (simp_all add: create_summary_sheet_def create_core_web_vitals_sheet_def
      create_network_analysis_sheet_def create_opportunities_sheet_def psi_results_of_erase
      py_bind_map_sum py_mapM_map summary_row_erase cwv_rows_of_erase opportunity_rows_of_erase
      py_get_erase_origin_other)

lemma field_text_no_page_data:
  "lookup sd [''field_metrics''] = None \<or> lookup sd [''field_metrics''] = Some JNull
   \<Longrightarrow> field_text fmt sd key u = ''N/A''"
  using lookup_append [of sd "[''field_metrics'']" "[key]"]
  by (auto simp: field_text_def field_value_def)

subsection \<open>The sample documents\<close>





lemma sanitize_short:
  "sanitize_for_excel sample_formats (JStr ''a'') = ''a''"
  "sanitize_for_excel sample_formats (JStr ''b'') = ''b''"
  "sanitize_for_excel sample_formats (JStr ''T'') = ''T''"
  by (simp_all add: sanitize_for_excel_def py_str_def is_illegal_char_def)

lemma capitalize_mobile: "capitalize ''mobile'' = ''Mobile''"
  by (simp add: capitalize_def upper_char_def lower_char_def)




subsection \<open>Field cells of the Core Web Vitals sheet\<close>



subsection \<open>Documents with fields missing\<close>










subsection \<open>Origin field metrics\<close>

lemma origin_only_erased:
  "erase_origin (origin_only_data origin) = erase_origin (origin_only_data origin')"
  by (simp add: erase_origin_def origin_only_data_def map_key_def erase_results_def
      erase_psi_def erase_strategies_def erase_strategy_def origin_only_strategy_def)

lemma origin_only_sheet:
  "create_core_web_vitals_sheet sample_formats (origin_only_data origin)
     = Inr [[JStr ''a'', JStr ''Mobile'', JInt 55, JStr [], JStr ''N/A'', JStr [], JStr ''N/A'',
             JStr [], JStr ''N/A'', JStr [], JStr [], JStr []]]"
proof -
  have w: "wf_data (origin_only_data origin)"
    by (simp add: wf_data_def origin_only_data_def origin_only_strategy_def obj_with_def
        opt_def arr_of_def wf_psi_def wf_strategies_def wf_strategy_def wf_field_def)
  have "cwv_cells sample_formats (JStr ''a'') ''mobile'' (origin_only_strategy origin)
      = [JStr ''a'', JStr ''Mobile'', JInt 55, JStr [], JStr ''N/A'', JStr [], JStr ''N/A'',
         JStr [], JStr ''N/A'', JStr [], JStr [], JStr []]"
    by (simp add: cwv_cells_def origin_only_strategy_def field_at_def metric_text_def
        field_text_def field_value_def sanitize_short capitalize_mobile)
  with cwv_sheet_wf [OF w, of sample_formats] show ?thesis
    by (simp add: entries_def origin_only_data_def field_at_def cwv_sheet_rows_def
        strategy_items_def)
qed

text \<open>
  C10: the report builder never consults the origin field metrics. Two documents that
  differ only in the \<open>origin_field_metrics\<close> of their strategy results give the same
  four sheets (the same rows or the same exception), and a row built from a strategy
  result whose page-level \<open>field_metrics\<close> is absent or null has \<open>N/A\<close> in its three
  field columns, whatever origin data the result carries.
\<close>

theorem origin_field_metrics_ignored:
  assumes "erase_origin d1 = erase_origin d2"
  shows "create_summary_sheet fmt d1 = create_summary_sheet fmt d2
    \<and> create_core_web_vitals_sheet fmt d1 = create_core_web_vitals_sheet fmt d2
    \<and> create_network_analysis_sheet fmt d1 = create_network_analysis_sheet fmt d2
    \<and> create_opportunities_sheet fmt d1 = create_opportunities_sheet fmt d2
    \<and> (\<forall>u n sd row.
          cwv_row fmt u n sd = Inr row
            \<and> (lookup sd [''field_metrics''] = None \<or> lookup sd [''field_metrics''] = Some JNull)
          \<longrightarrow> row ! 4 = JStr ''N/A'' \<and> row ! 6 = JStr ''N/A'' \<and> row ! 8 = JStr ''N/A'')"
proof -
  have s: "create_summary_sheet fmt d1 = create_summary_sheet fmt d2"
    using sheets_erase(1) [of fmt d1] sheets_erase(1) [of fmt d2] assms by simp
  have c: "create_core_web_vitals_sheet fmt d1 = create_core_web_vitals_sheet fmt d2"
    using sheets_erase(2) [of fmt d1] sheets_erase(2) [of fmt d2] assms by simp
  have n: "create_network_analysis_sheet fmt d1 = create_network_analysis_sheet fmt d2"
    using sheets_erase(3) [of fmt d1] sheets_erase(3) [of fmt d2] assms by simp
  have p: "create_opportunities_sheet fmt d1 = create_opportunities_sheet fmt d2"
    using sheets_erase(4) [of fmt d1] sheets_erase(4) [of fmt d2] assms by simp
  have r: "row ! 4 = JStr ''N/A'' \<and> row ! 6 = JStr ''N/A'' \<and> row ! 8 = JStr ''N/A''"
    if "cwv_row fmt u n sd = Inr row"
      and "lookup sd [''field_metrics''] = None \<or> lookup sd [''field_metrics''] = Some JNull"
    for u n sd row
    using cwv_row_field_cells [OF that(1)] by (simp add: field_text_no_page_data [OF that(2)])
  from s c n p r show ?thesis by blast
qed

text \<open>
  Witness for C10: two documents with one strategy result each, the same but for their
  origin field metrics (an LCP in one, a CLS in the other) and with null page-level
  field data. They become equal when the origin data is removed, their Core Web Vitals
  sheets are the same single row, and its field columns read \<open>N/A\<close>.
\<close>

theorem origin_field_metrics_ignored_witness:
  "erase_origin (origin_only_data (JObj [(''lcp_p75'', JFloat (19 / 10))]))
     = erase_origin (origin_only_data (JObj [(''cls_p75'', JFloat (5 / 100))]))
   \<and> create_core_web_vitals_sheet sample_formats
        (origin_only_data (JObj [(''lcp_p75'', JFloat (19 / 10))]))
     = create_core_web_vitals_sheet sample_formats
        (origin_only_data (JObj [(''cls_p75'', JFloat (5 / 100))]))
   \<and> create_core_web_vitals_sheet sample_formats
        (origin_only_data (JObj [(''lcp_p75'', JFloat (19 / 10))]))
     = Inr [[JStr ''a'', JStr ''Mobile'', JInt 55, JStr [], JStr ''N/A'', JStr [], JStr ''N/A'',
             JStr [], JStr ''N/A'', JStr [], JStr [], JStr []]]
   \<and> lookup (origin_only_strategy (JObj [(''lcp_p75'', JFloat (19 / 10))])) [''field_metrics'']
     = Some JNull"
proof -
  let ?o1 = "JObj [(''lcp_p75'', JFloat (19 / 10))]"
  let ?o2 = "JObj [(''cls_p75'', JFloat (5 / 100))]"
  have e: "erase_origin (origin_only_data ?o1) = erase_origin (origin_only_data ?o2)"
    by (rule origin_only_erased)
  have l: "lookup (origin_only_strategy ?o1) [''field_metrics''] = Some JNull"
    by (simp add: origin_only_strategy_def)
  from origin_field_metrics_ignored [OF e, of sample_formats]
  have "create_core_web_vitals_sheet sample_formats (origin_only_data ?o1)
      = create_core_web_vitals_sheet sample_formats (origin_only_data ?o2)"
    by blast
  with e l origin_only_sheet [of ?o1] show ?thesis by simp
qed

end
